theory Spec2Isabelle
  imports Main "HOL-Library.Word"
begin

section \<open>Bytes, randomness and the platform cipher\<close>

text \<open>
  A \<^verbatim>\<open>Uint8Array\<close> is a list of 8-bit words. A JavaScript string that carries user text
  is the list of its code points (a lone surrogate is a code point in D800..DFFF); every
  other string of the program (identifiers, base64 text) is a \<^typ>\<open>string\<close>.
\<close>

type_synonym byte = "8 word"
type_synonym bytes = "byte list"
type_synonym jsstring = "nat list"
type_synonym cryptoKey = bytes

text \<open>
  \<^verbatim>\<open>window.crypto.subtle\<close> with an AES-GCM key is not code of this repository: it is a
  parameter, a pair of functions of key, iv and data. Decryption fails (\<open>None\<close>, the
  platform's OperationError) when the tag does not authenticate.
\<close>

record subtle =
  encrypt :: "cryptoKey \<Rightarrow> bytes \<Rightarrow> bytes \<Rightarrow> bytes"
  decrypt :: "cryptoKey \<Rightarrow> bytes \<Rightarrow> bytes \<Rightarrow> bytes option"

text \<open>What AES-GCM guarantees and the program relies on: decrypting under the same key
  and 12-byte iv gives the plaintext back.\<close>

definition aead_correct :: "subtle \<Rightarrow> bool" where
  "aead_correct S \<longleftrightarrow>
     (\<forall>k iv p. length iv = 12 \<longrightarrow> decrypt S k iv (encrypt S k iv p) = Some p)"

text \<open>\<^verbatim>\<open>getRandomValues(new Uint8Array(12))\<close>: 96 random bits, as 12 bytes.\<close>

definition getRandomValues12 :: "96 word \<Rightarrow> bytes" where
  "getRandomValues12 r = map (\<lambda>i. ucast (drop_bit (8 * i) r)) [0..<12]"

text \<open>A cipher to run the definitions on: the plaintext masked with the first key byte
  and the first iv byte, followed by a one-byte tag.\<close>

definition toy_mask :: "cryptoKey \<Rightarrow> bytes \<Rightarrow> byte" where
  "toy_mask k iv = (case k of [] \<Rightarrow> 0 | a # _ \<Rightarrow> a) + (case iv of [] \<Rightarrow> 0 | b # _ \<Rightarrow> b)"

definition toy_subtle :: subtle where
  "toy_subtle =
     \<lparr> encrypt = (\<lambda>k iv p. map (\<lambda>b. b + toy_mask k iv) p @ [toy_mask k iv]),
       decrypt = (\<lambda>k iv c.
          if c \<noteq> [] \<and> last c = toy_mask k iv
          then Some (map (\<lambda>b. b - toy_mask k iv) (butlast c)) else None) \<rparr>"

section \<open>Base64: btoa and atob\<close>

definition b64chars :: string where
  "b64chars = ''ABCDEFGHIJKLMNOPQRSTUVWXYZabcdefghijklmnopqrstuvwxyz0123456789+/''"

definition b64_char :: "nat \<Rightarrow> char" where
  "b64_char n = b64chars ! (n mod 64)"

fun index_of :: "char \<Rightarrow> string \<Rightarrow> nat option" where
  "index_of c [] = None"
| "index_of c (x # xs) = (if c = x then Some 0 else map_option Suc (index_of c xs))"

definition b64_index :: "char \<Rightarrow> nat option" where
  "b64_index c = index_of c b64chars"

text \<open>\<^verbatim>\<open>String.fromCharCode(...bytes)\<close>: the spread passes every byte as one argument of
  the call. An engine takes only so many arguments in one call and throws a
  \<^verbatim>\<open>RangeError\<close> (\<open>None\<close>) past that; the bound \<open>maxArgs\<close> is the engine's, not the program's,
  and is a parameter. Within the bound the result is the binary string whose code units
  are the bytes.\<close>

definition fromCharCode :: "nat \<Rightarrow> bytes \<Rightarrow> nat list option" where
  "fromCharCode maxArgs bs = (if length bs \<le> maxArgs then Some (map unat bs) else None)"

text \<open>\<^verbatim>\<open>new Uint8Array(s.split('').map(c => c.charCodeAt(0)))\<close>: each code unit modulo 256.\<close>

definition charCodes :: "nat list \<Rightarrow> bytes" where
  "charCodes s = map of_nat s"

fun sextets :: "nat list \<Rightarrow> nat list" where
  "sextets (a # b # c # rest) =
     [a div 4, (a mod 4) * 16 + b div 16, (b mod 16) * 4 + c div 64, c mod 64] @ sextets rest"
| "sextets [a, b] = [a div 4, (a mod 4) * 16 + b div 16, (b mod 16) * 4]"
| "sextets [a] = [a div 4, (a mod 4) * 16]"
| "sextets [] = []"

text \<open>\<^verbatim>\<open>btoa\<close> throws InvalidCharacterError (\<open>None\<close>) on a code unit above 255.\<close>

definition btoa :: "nat list \<Rightarrow> string option" where
  "btoa s =
     (if list_all (\<lambda>c. c \<le> 255) s
      then Some (map b64_char (sextets s) @ replicate ((3 - length s mod 3) mod 3) (CHR ''=''))
      else None)"

definition ascii_whitespace :: "char \<Rightarrow> bool" where
  "ascii_whitespace c \<longleftrightarrow> c \<in> set [CHR 0x09, CHR 0x0A, CHR 0x0C, CHR 0x0D, CHR 0x20]"

definition strip_padding :: "string \<Rightarrow> string" where
  "strip_padding d =
     (if d \<noteq> [] \<and> last d = CHR ''=''
      then (if butlast d \<noteq> [] \<and> last (butlast d) = CHR ''=''
            then butlast (butlast d) else butlast d)
      else d)"

fun octets :: "nat list \<Rightarrow> nat list" where
  "octets (s0 # s1 # s2 # s3 # rest) =
     [s0 * 4 + s1 div 16, (s1 mod 16) * 16 + s2 div 4, (s2 mod 4) * 64 + s3] @ octets rest"
| "octets [s0, s1, s2] = [s0 * 4 + s1 div 16, (s1 mod 16) * 16 + s2 div 4]"
| "octets [s0, s1] = [s0 * 4 + s1 div 16]"
| "octets [s0] = []"
| "octets [] = []"

fun those_list :: "'a option list \<Rightarrow> 'a list option" where
  "those_list [] = Some []"
| "those_list (None # xs) = None"
| "those_list (Some x # xs) = map_option ((#) x) (those_list xs)"

text \<open>\<^verbatim>\<open>atob\<close> is the forgiving base64 decoder: ASCII whitespace is removed, one or two
  padding characters are removed when the length is a multiple of 4, a length of 1
  modulo 4 or a character outside the alphabet throws (\<open>None\<close>).\<close>

definition atob :: "string \<Rightarrow> nat list option" where
  "atob data =
     (let d0 = filter (\<lambda>c. \<not> ascii_whitespace c) data;
          d = (if length d0 mod 4 = 0 then strip_padding d0 else d0)
      in if length d mod 4 = 1 then None
         else map_option octets (those_list (map b64_index d)))"

section \<open>UTF-8: TextEncoder and TextDecoder\<close>

definition is_surrogate :: "nat \<Rightarrow> bool" where
  "is_surrogate cp \<longleftrightarrow> 0xD800 \<le> cp \<and> cp \<le> 0xDFFF"


definition utf8_encode_cp :: "nat \<Rightarrow> nat list" where
  "utf8_encode_cp cp =
     (if cp < 0x80 then [cp]
      else if cp < 0x800 then [0xC0 + cp div 64, 0x80 + cp mod 64]
      else if cp < 0x10000 then
        [0xE0 + cp div 4096, 0x80 + (cp div 64) mod 64, 0x80 + cp mod 64]
      else [0xF0 + cp div 262144, 0x80 + (cp div 4096) mod 64,
            0x80 + (cp div 64) mod 64, 0x80 + cp mod 64])"

text \<open>\<^verbatim>\<open>new TextEncoder().encode(text)\<close>: the string is first converted to scalar values
  (a lone surrogate becomes U+FFFD), then encoded.\<close>

definition TextEncoder_encode :: "jsstring \<Rightarrow> bytes" where
  "TextEncoder_encode text =
     map of_nat (concat (map (\<lambda>cp. utf8_encode_cp (if is_surrogate cp then 0xFFFD else cp)) text))"

text \<open>The UTF-8 decoder of the Encoding standard, in replacement mode. The state is the
  code point so far, the number of continuation bytes still needed and the bounds on the
  next byte. A byte out of bounds gives U+FFFD and is read again from the initial state.\<close>

fun utf8_decoder :: "nat \<Rightarrow> nat \<Rightarrow> nat \<Rightarrow> nat \<Rightarrow> nat list \<Rightarrow> nat list" where
  "utf8_decoder cp needed lo hi [] = (if needed \<noteq> 0 then [0xFFFD] else [])"
| "utf8_decoder cp needed lo hi (b # bs) =
     (if needed = 0 then
        (if b \<le> 0x7F then b # utf8_decoder 0 0 0x80 0xBF bs
         else if 0xC2 \<le> b \<and> b \<le> 0xDF then utf8_decoder (b mod 32) 1 0x80 0xBF bs
         else if 0xE0 \<le> b \<and> b \<le> 0xEF then
           utf8_decoder (b mod 16) 2 (if b = 0xE0 then 0xA0 else 0x80)
             (if b = 0xED then 0x9F else 0xBF) bs
         else if 0xF0 \<le> b \<and> b \<le> 0xF4 then
           utf8_decoder (b mod 8) 3 (if b = 0xF0 then 0x90 else 0x80)
             (if b = 0xF4 then 0x8F else 0xBF) bs
         else 0xFFFD # utf8_decoder 0 0 0x80 0xBF bs)
      else if b < lo \<or> hi < b then 0xFFFD # utf8_decoder 0 0 0x80 0xBF (b # bs)
      else if needed = 1 then (cp * 64 + b mod 64) # utf8_decoder 0 0 0x80 0xBF bs
      else utf8_decoder (cp * 64 + b mod 64) (needed - 1) 0x80 0xBF bs)"

text \<open>\<^verbatim>\<open>new TextDecoder().decode(buffer)\<close>: the decoder is created with its defaults, so
  \<^verbatim>\<open>ignoreBOM\<close> is false and a leading byte order mark EF BB BF is consumed, not output.\<close>

definition TextDecoder_decode :: "bytes \<Rightarrow> jsstring" where
  "TextDecoder_decode buffer =
     (let bs = map unat buffer
      in utf8_decoder 0 0 0x80 0xBF (if take 3 bs = [0xEF, 0xBB, 0xBF] then drop 3 bs else bs))"

section \<open>crypto.ts\<close>

datatype crypto_error = InvalidCharacterError | OperationError | RangeError

record encrypted =
  enc_data :: string
  enc_iv :: string

text \<open>\<^verbatim>\<open>encryptMessage\<close>: the \<^verbatim>\<open>data\<close> field of the result is computed first, then the
  \<^verbatim>\<open>iv\<close> field; the first call that throws rejects the promise.\<close>

definition encryptMessage :: "subtle \<Rightarrow> nat \<Rightarrow> 96 word \<Rightarrow> cryptoKey \<Rightarrow> jsstring \<Rightarrow> crypto_error + encrypted" where
  "encryptMessage S maxArgs rnd key text =
     (let iv = getRandomValues12 rnd;
          ciphertext = encrypt S key iv (TextEncoder_encode text)
      in case fromCharCode maxArgs ciphertext of
           None \<Rightarrow> Inl RangeError
         | Some cs \<Rightarrow>
             (case btoa cs of
                None \<Rightarrow> Inl InvalidCharacterError
              | Some d \<Rightarrow>
                  (case fromCharCode maxArgs iv of
                     None \<Rightarrow> Inl RangeError
                   | Some ivs \<Rightarrow>
                       (case btoa ivs of
                          None \<Rightarrow> Inl InvalidCharacterError
                        | Some i \<Rightarrow> Inr \<lparr> enc_data = d, enc_iv = i \<rparr>))))"

definition decryptMessage :: "subtle \<Rightarrow> cryptoKey \<Rightarrow> string \<Rightarrow> string \<Rightarrow> crypto_error + jsstring" where
  "decryptMessage S key data iv =
     (case atob data of
        None \<Rightarrow> Inl InvalidCharacterError
      | Some d \<Rightarrow>
          (case atob iv of
             None \<Rightarrow> Inl InvalidCharacterError
           | Some i \<Rightarrow>
               (case decrypt S key (charCodes i) (charCodes d) of
                  None \<Rightarrow> Inl OperationError
                | Some decrypted \<Rightarrow> Inr (TextDecoder_decode decrypted))))"

record encryptedBuffer =
  buf_data :: bytes
  buf_iv :: bytes

definition encryptBuffer :: "subtle \<Rightarrow> 96 word \<Rightarrow> cryptoKey \<Rightarrow> bytes \<Rightarrow> encryptedBuffer" where
  "encryptBuffer S rnd key buffer =
     (let iv = getRandomValues12 rnd
      in \<lparr> buf_data = encrypt S key iv buffer, buf_iv = iv \<rparr>)"

definition decryptBuffer :: "subtle \<Rightarrow> cryptoKey \<Rightarrow> bytes \<Rightarrow> bytes \<Rightarrow> bytes option" where
  "decryptBuffer S key buffer iv = decrypt S key iv buffer"

section \<open>Room: protocol constants and data-channel state\<close>

definition CHUNK_SIZE :: nat where "CHUNK_SIZE = 64 * 1024"
definition BUFFER_THRESHOLD :: nat where "BUFFER_THRESHOLD = 1 * 1024 * 1024"
definition SESSION_EXPIRY :: int where "SESSION_EXPIRY = 8000"
definition ROOM_FULL_EXPIRY :: int where "ROOM_FULL_EXPIRY = 12000"
definition MAX_FILE_SIZE :: nat where "MAX_FILE_SIZE = 100 * 1024 * 1024"

datatype readyState = Connecting | Open | Closing | Closed

record fileMetaPayload =
  meta_id :: string
  meta_name :: string
  meta_size :: nat
  meta_mimeType :: string

text \<open>A text frame is a JSON string; the model carries the object it stands for.
  \<open>OtherType\<close> is a JSON object with any other \<^verbatim>\<open>type\<close>, \<open>Unparsable\<close> a text that
  \<^verbatim>\<open>JSON.parse\<close> rejects.\<close>

datatype payload =
    Chat string string
  | PrivacyUpdate string bool bool
  | FileMeta fileMetaPayload
  | FileAbort string
  | SessionTerminate
  | OtherType
  | Unparsable

datatype frame = Text payload | Binary bytes

text \<open>\<^verbatim>\<open>dataChannelsRef\<close> is only ever written at the key \<^verbatim>\<open>'peer'\<close>, so the map is the
  channel stored there, if any. \<open>onbufferedamountlow\<close> says whether the upload's resume
  callback is registered, \<open>onclose_upload\<close> whether the upload has replaced the
  \<^verbatim>\<open>onclose\<close> handler of \<^verbatim>\<open>setupDC\<close>. The browser owns \<^verbatim>\<open>bufferedAmount\<close>: the value of
  each read is an input (see \<open>env\<close>).\<close>

record dataChannel =
  readyState :: readyState
  onbufferedamountlow :: bool
  onclose_upload :: bool

record receivingFileState =
  rcv_id :: string
  rcv_name :: string
  rcv_size :: nat
  rcv_received :: nat
  rcv_chunks :: "bytes list"
  rcv_mimeType :: string

datatype transferStatus = Pending | Transferring | Completed | Failed

text \<open>The progress percentage of a \<^verbatim>\<open>FileTransfer\<close> is display-only floating point and
  is left out.\<close>

record fileTransfer =
  ft_id :: string
  ft_name :: string
  ft_size :: nat
  ft_status :: transferStatus
  ft_mimeType :: string

datatype messageType = TextType | ImageType | FileType

text \<open>A chat message: a decrypted text, or a file shown through a blob URL; the blob is
  given by its bytes. Sender names and timestamps are display-only and left out.\<close>

datatype chatMessage =
    TextMsg string jsstring
  | BlobMsg string string messageType string bytes

record participant =
  p_id :: string
  isLocal :: bool
  audioEnabled :: bool
  videoEnabled :: bool

datatype toast =
    ToastFileTooLarge | ToastNoConnection | ToastTransferInterrupted | ToastUploadFailed
  | ToastFileAborted | ToastChannelClosed

record jsfile =
  file_name :: string
  file_type :: string
  file_bytes :: bytes

definition file_size :: "jsfile \<Rightarrow> nat" where
  "file_size f = length (file_bytes f)"

text \<open>The closure of one \<^verbatim>\<open>handleFileUpload\<close> call: the file, the cursor \<^verbatim>\<open>off\<close>, the
  abort signal, and how many reads of \<^verbatim>\<open>bufferedAmount\<close> and random draws it has made.\<close>

record upload =
  up_id :: string
  up_file :: jsfile
  off :: nat
  aborted :: bool
  reads :: nat
  draws :: nat

text \<open>A handler of the data channel that awaits a decryption returns at the \<^verbatim>\<open>await\<close>, and
  the rest of its body runs when the promise settles, which the platform decides. A
  pending decryption keeps what the rest of the body uses. For a chunk that is the
  assembly object the handler read from \<^verbatim>\<open>receivingRef\<close> before the \<^verbatim>\<open>await\<close> (its address,
  see \<open>assemblies\<close>) and the outcome of \<^verbatim>\<open>decryptBuffer\<close>, which the arguments of the call
  fix (\<open>None\<close>: the promise is rejected). For a chat text it is the outcome of
  \<^verbatim>\<open>decryptMessage\<close>.\<close>

datatype task =
    ChunkDecryption nat "bytes option"
  | ChatDecryption "crypto_error + jsstring"

text \<open>\<^verbatim>\<open>handleFileMetaReceive\<close> makes a new assembly object each time and a handler that
  awaits keeps the object it has read, so the objects are kept apart from the ref:
  \<open>assemblies\<close> holds every assembly object made so far, \<open>receivingRef\<close> the address of
  the current one (its index in \<open>assemblies\<close>), if there is one. \<open>pending\<close> lists the
  decryptions that have not settled yet, in the order of their calls.\<close>

record room =
  encryptionKeyRef :: "cryptoKey option"
  dataChannelsRef :: "dataChannel option"
  outbox :: "frame list"
  assemblies :: "receivingFileState list"
  receivingRef :: "nat option"
  pending :: "task list"
  files :: "fileTransfer list"
  messages :: "chatMessage list"
  blobUrlsRef :: "bytes list"
  participants :: "participant list"
  toasts :: "toast list"
  abortControllerRef :: bool
  transfer :: "upload option"
  connected :: bool
  exited :: bool

text \<open>What the browser decides: the value of the k-th read of \<^verbatim>\<open>dc.bufferedAmount\<close> and
  the k-th draw of 96 random bits.\<close>

record env =
  bufferedAmountAt :: "nat \<Rightarrow> nat"
  randomAt :: "nat \<Rightarrow> 96 word"

text \<open>\<^verbatim>\<open>dc.send\<close>: \<open>outbox\<close> lists every frame handed to the channel, in order.\<close>

definition dc_send :: "frame \<Rightarrow> room \<Rightarrow> room" where
  "dc_send fr r = r\<lparr>outbox := outbox r @ [fr]\<rparr>"

definition dc_open :: "room \<Rightarrow> bool" where
  "dc_open r = (case dataChannelsRef r of None \<Rightarrow> False | Some dc \<Rightarrow> readyState dc = Open)"

definition set_status :: "string \<Rightarrow> transferStatus \<Rightarrow> fileTransfer list \<Rightarrow> fileTransfer list" where
  "set_status i st fs = map (\<lambda>f. if ft_id f = i then f\<lparr>ft_status := st\<rparr> else f) fs"

definition starts_with :: "string \<Rightarrow> string \<Rightarrow> bool" where
  "starts_with s p = (take (length p) s = p)"

definition blob_type :: "string \<Rightarrow> messageType" where
  "blob_type mime = (if starts_with mime ''image/'' then ImageType else FileType)"

section \<open>Room: receiving\<close>

definition handleFileMetaReceive :: "fileMetaPayload \<Rightarrow> room \<Rightarrow> room" where
  "handleFileMetaReceive m r =
     r\<lparr>assemblies := assemblies r @
          [\<lparr> rcv_id = meta_id m, rcv_name = meta_name m, rcv_size = meta_size m,
             rcv_received = 0, rcv_chunks = [], rcv_mimeType = meta_mimeType m \<rparr>],
       receivingRef := Some (length (assemblies r)),
       files := \<lparr> ft_id = meta_id m, ft_name = meta_name m, ft_size = meta_size m,
                  ft_status = Transferring, ft_mimeType = meta_mimeType m \<rparr> # files r\<rparr>"

text \<open>\<^verbatim>\<open>handleFileChunkReceive\<close> up to its \<^verbatim>\<open>await\<close>. With no assembly in progress it
  returns at once. Otherwise it reads the assembly object, splits the frame and calls
  \<^verbatim>\<open>decryptBuffer\<close>; a missing key makes the call fail like a failed authentication.
  \<^verbatim>\<open>dc.onmessage\<close> does not wait for the handler, so the next frame is handled while this
  decryption is pending.\<close>

definition handleFileChunkReceive :: "subtle \<Rightarrow> bytes \<Rightarrow> room \<Rightarrow> room" where
  "handleFileChunkReceive S d r =
     (case receivingRef r of
        None \<Rightarrow> r
      | Some a \<Rightarrow>
          r\<lparr>pending := pending r @
               [ChunkDecryption a
                  (case encryptionKeyRef r of
                     None \<Rightarrow> None
                   | Some key \<Rightarrow> decryptBuffer S key (drop 12 d) (take 12 d))]\<rparr>)"

text \<open>The rest of \<^verbatim>\<open>handleFileChunkReceive\<close>, run when the decryption has settled: the
  chunk is appended to the assembly object \<open>s\<close> that the handler read before the
  \<^verbatim>\<open>await\<close>, and when the bytes received reach the announced size the blob is made of
  the chunks in the order they were appended. A rejected decryption drops the current
  assembly. (Addresses are only made by \<^verbatim>\<open>handleFileMetaReceive\<close>, so \<open>a\<close> is always in
  range.)\<close>

definition handleFileChunkReceive_resume :: "nat \<Rightarrow> bytes option \<Rightarrow> room \<Rightarrow> room" where
  "handleFileChunkReceive_resume a outcome r =
     (case outcome of
        None \<Rightarrow> r\<lparr>receivingRef := None\<rparr>
      | Some dec \<Rightarrow>
          if a < length (assemblies r)
          then (let s = assemblies r ! a;
                    s' = s\<lparr>rcv_chunks := rcv_chunks s @ [dec],
                           rcv_received := rcv_received s + length dec\<rparr>;
                    r1 = r\<lparr>assemblies := (assemblies r)[a := s']\<rparr>
                in if rcv_received s' \<ge> rcv_size s'
                   then r1\<lparr>blobUrlsRef := blobUrlsRef r1 @ [concat (rcv_chunks s')],
                           messages := messages r1 @
                             [BlobMsg (rcv_id s') ''peer'' (blob_type (rcv_mimeType s'))
                                (rcv_name s') (concat (rcv_chunks s'))],
                           files := set_status (rcv_id s') Completed (files r1),
                           receivingRef := None\<rparr>
                   else r1)
          else r)"

text \<open>\<^verbatim>\<open>cleanupResources\<close>, as far as it touches this state.\<close>

definition cleanupResources :: "room \<Rightarrow> room" where
  "cleanupResources r =
     r\<lparr>receivingRef := None,
       dataChannelsRef := None,
       blobUrlsRef := [],
       transfer := (if abortControllerRef r
                    then map_option (\<lambda>u. u\<lparr>aborted := True\<rparr>) (transfer r) else transfer r),
       abortControllerRef := False\<rparr>"

text \<open>\<^verbatim>\<open>handleManualExit\<close>: the termination notice goes to an open channel, then cleanup
  and \<^verbatim>\<open>onExit\<close>. (It also deletes the signaling row, which is not part of this state.)\<close>

definition handleManualExit :: "room \<Rightarrow> room" where
  "handleManualExit r =
     (cleanupResources (if dc_open r then dc_send (Text SessionTerminate) r else r))\<lparr>exited := True\<rparr>"

text \<open>\<^verbatim>\<open>dc.onmessage\<close> as installed by \<^verbatim>\<open>setupDC\<close>, up to the first \<^verbatim>\<open>await\<close>.\<close>

fun onmessage :: "subtle \<Rightarrow> room \<Rightarrow> frame \<Rightarrow> room" where
  "onmessage S r (Binary d) = handleFileChunkReceive S d r"
| "onmessage S r (Text (Chat d i)) =
     (case encryptionKeyRef r of
        None \<Rightarrow> r
      | Some key \<Rightarrow> r\<lparr>pending := pending r @ [ChatDecryption (decryptMessage S key d i)]\<rparr>)"
| "onmessage S r (Text (PrivacyUpdate f a v)) =
     r\<lparr>participants :=
         map (\<lambda>p. if p_id p = ''peer'' then p\<lparr>audioEnabled := a, videoEnabled := v\<rparr> else p)
           (participants r)\<rparr>"
| "onmessage S r (Text (FileMeta m)) = handleFileMetaReceive m r"
| "onmessage S r (Text (FileAbort i)) =
     r\<lparr>toasts := toasts r @ [ToastFileAborted], files := set_status i Failed (files r)\<rparr>"
| "onmessage S r (Text SessionTerminate) = handleManualExit r"
| "onmessage S r (Text OtherType) = r"
| "onmessage S r (Text Unparsable) = r"

text \<open>The rest of a handler, run when its decryption has settled. A chat text that
  failed to decrypt is only logged.\<close>

fun resume :: "task \<Rightarrow> room \<Rightarrow> room" where
  "resume (ChunkDecryption a outcome) r = handleFileChunkReceive_resume a outcome r"
| "resume (ChatDecryption (Inl e)) r = r"
| "resume (ChatDecryption (Inr text)) r = r\<lparr>messages := messages r @ [TextMsg ''peer'' text]\<rparr>"

text \<open>What happens at the receiving end of the channel: a frame arrives and is handed to
  \<^verbatim>\<open>onmessage\<close> (while the channel is registered: the cleanup removes the handler), or
  the pending decryption at position \<open>k\<close> settles and its handler goes on. The order of
  these events is not the program's.\<close>

datatype dc_input = Arrives frame | Settles nat

fun receive_step :: "subtle \<Rightarrow> room \<Rightarrow> dc_input \<Rightarrow> room" where
  "receive_step S r (Arrives fr) = (if dataChannelsRef r = None then r else onmessage S r fr)"
| "receive_step S r (Settles k) =
     (if k < length (pending r)
      then resume (pending r ! k) (r\<lparr>pending := take k (pending r) @ drop (Suc k) (pending r)\<rparr>)
      else r)"

definition deliver :: "subtle \<Rightarrow> room \<Rightarrow> dc_input list \<Rightarrow> room" where
  "deliver S r inputs = foldl (receive_step S) r inputs"

section \<open>Room: sending a file\<close>

text \<open>The \<^verbatim>\<open>while\<close> loop of \<^verbatim>\<open>sendNext\<close>: one chunk per round, sent as the frame
  \<^verbatim>\<open>iv\<close> followed by the ciphertext.\<close>

text \<open>\<^verbatim>\<open>pack.set(iv, 0); pack.set(new Uint8Array(data), iv.length)\<close>\<close>

definition pack :: "encryptedBuffer \<Rightarrow> bytes" where
  "pack e = buf_iv e @ buf_data e"

text \<open>The loop condition, and \<^verbatim>\<open>buf.slice(off, off + CHUNK_SIZE)\<close>.\<close>

definition sendGuard :: "env \<Rightarrow> upload \<Rightarrow> room \<Rightarrow> bool" where
  "sendGuard E u r \<longleftrightarrow>
     off u < length (file_bytes (up_file u)) \<and> dc_open r
       \<and> bufferedAmountAt E (reads u) < BUFFER_THRESHOLD \<and> \<not> aborted u"

definition chunkAt :: "upload \<Rightarrow> bytes" where
  "chunkAt u = take CHUNK_SIZE (drop (off u) (file_bytes (up_file u)))"

function sendLoop :: "subtle \<Rightarrow> env \<Rightarrow> cryptoKey \<Rightarrow> upload \<Rightarrow> room \<Rightarrow> upload \<times> room" where
  "sendLoop S E key u r =
     (if sendGuard E u r
      then (let chunk = chunkAt u;
                e = encryptBuffer S (randomAt E (draws u)) key chunk
            in sendLoop S E key
                 (u\<lparr>off := off u + length chunk, reads := Suc (reads u), draws := Suc (draws u)\<rparr>)
                 (dc_send (Binary (pack e)) r))
      else (u\<lparr>reads := Suc (reads u)\<rparr>, r))"
  by pat_completeness auto
termination
  by (relation "measure (\<lambda>(S, E, key, u, r). length (file_bytes (up_file u)) - off u)")
     (auto simp: CHUNK_SIZE_def sendGuard_def chunkAt_def)

text \<open>\<^verbatim>\<open>sendNext\<close>: the loop, and after it (\<open>afterLoop\<close>) either the resume callback is
  registered, or the transfer is completed, or it fails. The key is set before any upload
  starts and is never unset, so the closure always finds it.\<close>

definition afterLoop :: "upload \<Rightarrow> room \<Rightarrow> room" where
  "afterLoop u r2 =
     (if aborted u then r2\<lparr>files := set_status (up_id u) Failed (files r2)\<rparr>
      else if off u < length (file_bytes (up_file u)) \<and> dc_open r2
      then r2\<lparr>dataChannelsRef :=
               map_option (\<lambda>dc. dc\<lparr>onbufferedamountlow := True\<rparr>) (dataChannelsRef r2)\<rparr>
      else if dc_open r2
      then r2\<lparr>blobUrlsRef := blobUrlsRef r2 @ [file_bytes (up_file u)],
              messages := messages r2 @
                [BlobMsg (up_id u) ''local'' (blob_type (file_type (up_file u)))
                   (file_name (up_file u)) (file_bytes (up_file u))],
              files := set_status (up_id u) Completed (files r2),
              abortControllerRef := False\<rparr>
      else r2\<lparr>files := set_status (up_id u) Failed (files r2),
              toasts := toasts r2 @ [ToastTransferInterrupted],
              abortControllerRef := False\<rparr>)"

definition sendNext :: "subtle \<Rightarrow> env \<Rightarrow> room \<Rightarrow> room" where
  "sendNext S E r =
     (case (transfer r, encryptionKeyRef r) of
        (Some u0, Some key) \<Rightarrow>
          if aborted u0 then r
          else (let (u, r1) = sendLoop S E key u0 r
                in afterLoop u (r1\<lparr>transfer := Some u\<rparr>))
      | _ \<Rightarrow> r)"

text \<open>\<^verbatim>\<open>handleFileUpload\<close>, with the identifier drawn for the transfer as an input. The
  size check comes before anything is sent.\<close>

definition handleFileUpload :: "subtle \<Rightarrow> env \<Rightarrow> string \<Rightarrow> jsfile \<Rightarrow> room \<Rightarrow> room" where
  "handleFileUpload S E i file r =
     (if encryptionKeyRef r = None then r
      else if file_size file > MAX_FILE_SIZE then r\<lparr>toasts := toasts r @ [ToastFileTooLarge]\<rparr>
      else if \<not> dc_open r then r\<lparr>toasts := toasts r @ [ToastNoConnection]\<rparr>
      else (let meta = \<lparr> meta_id = i, meta_name = file_name file, meta_size = file_size file,
                          meta_mimeType = file_type file \<rparr>;
                r1 = dc_send (Text (FileMeta meta)) r;
                r2 = r1\<lparr>abortControllerRef := True,
                        files := \<lparr> ft_id = i, ft_name = file_name file, ft_size = file_size file,
                                   ft_status = Transferring, ft_mimeType = file_type file \<rparr> # files r1,
                        transfer := Some \<lparr> up_id = i, up_file = file, off = 0, aborted = False,
                                            reads = 0, draws = 0 \<rparr>,
                        dataChannelsRef :=
                          map_option (\<lambda>dc. dc\<lparr>onclose_upload := True\<rparr>) (dataChannelsRef r1)\<rparr>
            in sendNext S E r2))"

text \<open>What can happen to the channel while a transfer is under way: the browser fires
  \<^verbatim>\<open>bufferedamountlow\<close>, or the channel closes.\<close>

datatype dc_event = BufferedAmountLow | DcClose

fun dc_step :: "subtle \<Rightarrow> env \<Rightarrow> room \<Rightarrow> dc_event \<Rightarrow> room" where
  "dc_step S E r BufferedAmountLow =
     (case dataChannelsRef r of
        None \<Rightarrow> r
      | Some dc \<Rightarrow>
          if onbufferedamountlow dc
          then sendNext S E (r\<lparr>dataChannelsRef := Some (dc\<lparr>onbufferedamountlow := False\<rparr>)\<rparr>)
          else r)"
| "dc_step S E r DcClose =
     (case dataChannelsRef r of
        None \<Rightarrow> r
      | Some dc \<Rightarrow>
          (let r1 = r\<lparr>dataChannelsRef := Some (dc\<lparr>readyState := Closed\<rparr>)\<rparr>
           in if onclose_upload dc
              then r1\<lparr>transfer := map_option (\<lambda>u. u\<lparr>aborted := True\<rparr>) (transfer r1),
                      files := (case transfer r1 of
                                  None \<Rightarrow> files r1
                                | Some u \<Rightarrow>
                                    map (\<lambda>f. if ft_id f = up_id u \<and> ft_status f = Transferring
                                              then f\<lparr>ft_status := Failed\<rparr> else f) (files r1))\<rparr>
              else if connected r1 then r1\<lparr>toasts := toasts r1 @ [ToastChannelClosed]\<rparr>
              else r1))"

definition dc_run :: "subtle \<Rightarrow> env \<Rightarrow> room \<Rightarrow> dc_event list \<Rightarrow> room" where
  "dc_run S E r evs = foldl (dc_step S E) r evs"

section \<open>The signaling row and the rendezvous store\<close>

text \<open>The offer and answer columns hold text: the literal \<^verbatim>\<open>CLAIMED\<close>; the base64 text of
  a session description (\<open>SDP d\<close>, which \<^verbatim>\<open>JSON.parse(atob(x))\<close> turns back into \<open>d\<close>); a
  text that \<^verbatim>\<open>atob\<close> and \<^verbatim>\<open>JSON.parse\<close> accept but whose value is no session description
  (\<open>NotDescription\<close>, the text of \<^verbatim>\<open>null\<close> say), so that \<^verbatim>\<open>new RTCSessionDescription\<close> throws on
  it; or any other text (\<open>Malformed\<close>), on which \<^verbatim>\<open>atob\<close> or \<^verbatim>\<open>JSON.parse\<close> throws.\<close>

datatype sdpText = CLAIMED | SDP string | NotDescription string | Malformed string

text \<open>\<open>updated_at\<close> is the column as \<^verbatim>\<open>new Date(x).getTime()\<close> reads it, in milliseconds;
  \<open>None\<close> is a missing or unreadable value.\<close>

record sigRow =
  passphrase_hash :: string
  initiator_id :: "string option"
  receiver_id :: "string option"
  offer :: "sdpText option"
  answer :: "sdpText option"
  updated_at :: "int option"

text \<open>Every request of the program filters on the room of the session and the column is
  unique, so the store is the row of that room, if there is one.\<close>

type_synonym store = "sigRow option"

text \<open>The columns an \<^verbatim>\<open>update\<close> sets.\<close>

record patch =
  set_initiator_id :: "string option"
  set_receiver_id :: "string option"
  set_offer :: "sdpText option"
  set_answer :: "sdpText option"

definition apply_patch :: "int \<Rightarrow> patch \<Rightarrow> sigRow \<Rightarrow> sigRow" where
  "apply_patch now p rd =
     rd\<lparr>initiator_id := (case set_initiator_id p of None \<Rightarrow> initiator_id rd | Some v \<Rightarrow> Some v),
        receiver_id := (case set_receiver_id p of None \<Rightarrow> receiver_id rd | Some v \<Rightarrow> Some v),
        offer := (case set_offer p of None \<Rightarrow> offer rd | Some v \<Rightarrow> Some v),
        answer := (case set_answer p of None \<Rightarrow> answer rd | Some v \<Rightarrow> Some v),
        updated_at := Some now\<rparr>"

text \<open>\<^verbatim>\<open>update(p).eq('room_id', room)\<close>, with \<^verbatim>\<open>.is('receiver_id', null)\<close> when
  \<open>if_receiver_null\<close> holds; the result is the new store and the number of rows matched.
  The table's trigger stamps \<open>updated_at\<close> on every update.\<close>

definition db_update :: "int \<Rightarrow> bool \<Rightarrow> patch \<Rightarrow> store \<Rightarrow> store \<times> nat" where
  "db_update now if_receiver_null p db =
     (case db of
        None \<Rightarrow> (None, 0)
      | Some rd \<Rightarrow>
          if if_receiver_null \<and> receiver_id rd \<noteq> None then (Some rd, 0)
          else (Some (apply_patch now p rd), 1))"

text \<open>\<^verbatim>\<open>insert\<close>: the unique room column makes it fail (\<open>True\<close>) when the row exists.\<close>

definition db_insert :: "int \<Rightarrow> sigRow \<Rightarrow> store \<Rightarrow> store \<times> bool" where
  "db_insert now rd db =
     (case db of None \<Rightarrow> (Some (rd\<lparr>updated_at := Some now\<rparr>), False) | Some old \<Rightarrow> (Some old, True))"

text \<open>A request can fail on the way to the store (nothing happens) or on the way back (it
  happened, the caller sees an error).\<close>

datatype fault = NoFault | RequestLost | ReplyLost

definition update_rpc :: "fault \<Rightarrow> int \<Rightarrow> bool \<Rightarrow> patch \<Rightarrow> store \<Rightarrow> store \<times> nat option" where
  "update_rpc f now c p db =
     (case f of
        NoFault \<Rightarrow> (fst (db_update now c p db), Some (snd (db_update now c p db)))
      | RequestLost \<Rightarrow> (db, None)
      | ReplyLost \<Rightarrow> (fst (db_update now c p db), None))"

definition insert_rpc :: "fault \<Rightarrow> int \<Rightarrow> sigRow \<Rightarrow> store \<Rightarrow> store \<times> bool" where
  "insert_rpc f now rd db =
     (case f of
        NoFault \<Rightarrow> db_insert now rd db
      | RequestLost \<Rightarrow> (db, True)
      | ReplyLost \<Rightarrow> (fst (db_insert now rd db), True))"

definition delete_rpc :: "fault \<Rightarrow> store \<Rightarrow> store" where
  "delete_rpc f db = (if f = RequestLost then db else None)"

definition select_rpc :: "fault \<Rightarrow> store \<Rightarrow> sigRow option" where
  "select_rpc f db = (if f = NoFault then db else None)"

section \<open>Room: the signaling machine\<close>

datatype handshakeRole = RoleNone | Initiator | Receiver

datatype connectionStatus =
  Idle | Preparing | Ready | Connected | SecurityError | MediaError | RoomFull

datatype signalingState = Stable | HaveLocalOffer | HaveRemoteOffer

record peerConnection =
  signalingState :: signalingState
  localDescription :: "string option"
  remoteDescription :: "string option"

text \<open>A pending \<^verbatim>\<open>addTimeout\<close> callback: \<open>Rejoin n ms\<close> is \<^verbatim>\<open>joinAndSignal(n)\<close> after
  \<open>ms\<close> milliseconds.\<close>

datatype timer = Rejoin nat nat | GatherTimeout | ExitTimer

text \<open>The refs of the component that the signaling code reads and writes.
  \<open>gatheringComplete\<close> is the variable of the handshake closure; \<open>srdCalls\<close> lists the
  descriptions handed to \<^verbatim>\<open>setRemoteDescription\<close>, in order.\<close>

record signaling =
  role :: handshakeRole
  status :: connectionStatus
  isSignaling :: bool
  processedOffer :: bool
  processedAnswer :: bool
  localSDP :: "sdpText option"
  peer :: "peerConnection option"
  gatheringComplete :: bool
  subscribed :: bool
  heartbeatOn :: bool
  heartbeatFailures :: nat
  reconnectTimeout :: "nat option"
  timeouts :: "timer list"
  srdCalls :: "string list"
  mismatchToasts :: nat

record peerCfg =
  peerId :: string
  pass_hash :: string

text \<open>What the outside decides during one step: the clock, whether requests fail, the
  description \<^verbatim>\<open>createOffer\<close> or \<^verbatim>\<open>createAnswer\<close> produces, and whether the browser
  accepts the descriptions it is given.\<close>

record sigEnv =
  now :: int
  selectFault :: fault
  writeFault :: fault
  created :: string
  accepted :: bool

text \<open>JavaScript truthiness of a nullable string.\<close>

definition truthy :: "string option \<Rightarrow> bool" where
  "truthy x = (case x of None \<Rightarrow> False | Some v \<Rightarrow> v \<noteq> [])"

definition truthy_sdp :: "sdpText option \<Rightarrow> bool" where
  "truthy_sdp x =
     (case x of
        None \<Rightarrow> False
      | Some (Malformed v) \<Rightarrow> v \<noteq> []
      | Some (NotDescription v) \<Rightarrow> v \<noteq> []
      | Some _ \<Rightarrow> True)"

text \<open>The staleness test of a fully occupied row.\<close>

definition expired :: "string \<Rightarrow> int \<Rightarrow> sigRow \<Rightarrow> bool" where
  "expired self t rd =
     (case updated_at rd of
        None \<Rightarrow> False
      | Some updatedAt \<Rightarrow>
          if initiator_id rd = Some self \<or> receiver_id rd = Some self
          then t - updatedAt > SESSION_EXPIRY
          else t - updatedAt > ROOM_FULL_EXPIRY)"

definition scheduleReconnect :: "nat \<Rightarrow> signaling \<Rightarrow> signaling" where
  "scheduleReconnect delayMs s =
     (if reconnectTimeout s \<noteq> None then s else s\<lparr>reconnectTimeout := Some delayMs\<rparr>)"

text \<open>\<^verbatim>\<open>btoa(JSON.stringify(description))\<close> of the local description; with no local
  description the text is that of \<^verbatim>\<open>null\<close>, which parses but is no session description.\<close>

definition encodeLocal :: "string option \<Rightarrow> sdpText" where
  "encodeLocal d = (case d of None \<Rightarrow> NotDescription ''bnVsbA=='' | Some v \<Rightarrow> SDP v)"

text \<open>The receiver's handshake from the parsed offer on (the same code in the fetch path
  and in the notification path): a new connection, the gathering timeout, the offer as
  remote description, the answer as local description. The parsed offer is \<open>Some d\<close> for
  a session description and \<open>None\<close> for any other value: then
  \<^verbatim>\<open>new RTCSessionDescription(offer)\<close> throws inside the \<^verbatim>\<open>try\<close>, after the connection and
  the timer were made and before \<^verbatim>\<open>setRemoteDescription\<close> is called.\<close>

definition receiveOffer :: "sigEnv \<Rightarrow> string option \<Rightarrow> signaling \<Rightarrow> signaling" where
  "receiveOffer E parsed s =
     (let s1 = s\<lparr>peer := Some \<lparr> signalingState = Stable, localDescription = None,
                                 remoteDescription = None \<rparr>,
                 gatheringComplete := False,
                 timeouts := timeouts s @ [GatherTimeout]\<rparr>
      in case parsed of
           None \<Rightarrow> s1\<lparr>isSignaling := False\<rparr>
         | Some d \<Rightarrow>
             (let s2 = s1\<lparr>srdCalls := srdCalls s1 @ [d]\<rparr>
              in if accepted E
                 then s2\<lparr>peer := Some \<lparr> signalingState = Stable,
                                          localDescription = Some (created E),
                                          remoteDescription = Some d \<rparr>\<rparr>
                 else s2\<lparr>isSignaling := False\<rparr>))"

text \<open>\<^verbatim>\<open>sendAnswer\<close> (the same code in both paths): one conditional update claims the
  receiver slot and posts the answer; when it matched no row or failed, the row is read
  again.\<close>

definition claimPatch :: "string \<Rightarrow> sdpText \<Rightarrow> patch" where
  "claimPatch self answerSDP =
     \<lparr> set_initiator_id = None, set_receiver_id = Some self, set_offer = None,
       set_answer = Some answerSDP \<rparr>"

definition sendAnswer :: "peerCfg \<Rightarrow> sigEnv \<Rightarrow> string option \<Rightarrow> signaling \<times> store \<Rightarrow> signaling \<times> store" where
  "sendAnswer cfg E description w =
     (let (s, db) = w in
      if gatheringComplete s then (s, db)
      else (let s1 = s\<lparr>gatheringComplete := True,
                        timeouts := remove1 GatherTimeout (timeouts s)\<rparr>;
                answerSDP = encodeLocal description;
                (db1, updData) = update_rpc (writeFault E) (now E) True
                                   (claimPatch (peerId cfg) answerSDP) db
            in if updData = None \<or> updData = Some 0
               then (case select_rpc (selectFault E) db1 of
                       None \<Rightarrow> (s1\<lparr>status := RoomFull, isSignaling := False\<rparr>, db1)
                     | Some currentRoom \<Rightarrow>
                         if receiver_id currentRoom = Some (peerId cfg)
                         then (s1\<lparr>localSDP := Some answerSDP, status := Ready,
                                   isSignaling := False\<rparr>, db1)
                         else (s1\<lparr>status := RoomFull, isSignaling := False\<rparr>, db1))
               else (s1\<lparr>localSDP := Some answerSDP, status := Ready, isSignaling := False\<rparr>, db1)))"

text \<open>\<^verbatim>\<open>sendOffer\<close> of the initiator: an update of the offer column alone.\<close>

definition sendOffer :: "peerCfg \<Rightarrow> sigEnv \<Rightarrow> string option \<Rightarrow> signaling \<times> store \<Rightarrow> signaling \<times> store" where
  "sendOffer cfg E description w =
     (let (s, db) = w in
      if gatheringComplete s then (s, db)
      else (let s1 = s\<lparr>gatheringComplete := True,
                        timeouts := remove1 GatherTimeout (timeouts s)\<rparr>;
                offerSDP = encodeLocal description;
                db1 = fst (update_rpc (writeFault E) (now E) False
                        \<lparr> set_initiator_id = None, set_receiver_id = None,
                          set_offer = Some offerSDP, set_answer = None \<rparr> db)
            in (s1\<lparr>localSDP := Some offerSDP, status := Ready, isSignaling := False\<rparr>, db1)))"

text \<open>The two triggers of \<^verbatim>\<open>sendAnswer\<close> and \<^verbatim>\<open>sendOffer\<close>: the gathering state turns
  \<^verbatim>\<open>complete\<close>, or the 4 s timer fires while a local description exists.\<close>

definition send_description :: "peerCfg \<Rightarrow> sigEnv \<Rightarrow> string option \<Rightarrow> signaling \<times> store \<Rightarrow> signaling \<times> store" where
  "send_description cfg E description w =
     (if role (fst w) = Initiator then sendOffer cfg E description w
      else sendAnswer cfg E description w)"

definition onicegatheringcomplete :: "peerCfg \<Rightarrow> sigEnv \<Rightarrow> signaling \<times> store \<Rightarrow> signaling \<times> store" where
  "onicegatheringcomplete cfg E w =
     (case peer (fst w) of
        None \<Rightarrow> w
      | Some pc \<Rightarrow>
          if \<not> gatheringComplete (fst w) then send_description cfg E (localDescription pc) w
          else w)"

definition gatherTimeout :: "peerCfg \<Rightarrow> sigEnv \<Rightarrow> signaling \<times> store \<Rightarrow> signaling \<times> store" where
  "gatherTimeout cfg E w =
     (case peer (fst w) of
        None \<Rightarrow> w
      | Some pc \<Rightarrow>
          if \<not> gatheringComplete (fst w) \<and> localDescription pc \<noteq> None
          then send_description cfg E (localDescription pc) w
          else (fst w\<lparr>timeouts := remove1 GatherTimeout (timeouts (fst w))\<rparr>, snd w))"

text \<open>The row an initiator inserts: its own id, the \<^verbatim>\<open>CLAIMED\<close> mark in the offer
  column and the fingerprint of the passphrase.\<close>

definition claimRow :: "peerCfg \<Rightarrow> sigRow" where
  "claimRow cfg =
     \<lparr> passphrase_hash = pass_hash cfg, initiator_id = Some (peerId cfg), receiver_id = None,
       offer = Some CLAIMED, answer = None, updated_at = None \<rparr>"

text \<open>\<^verbatim>\<open>joinAndSignal(retryCount)\<close>: role election on the row read from the store. The
  heartbeat is installed at the end of the body, so not on the paths that return early.
  One call is one step here: a notification that arrives while the call awaits a request
  is taken after it.\<close>

definition joinAndSignal :: "peerCfg \<Rightarrow> sigEnv \<Rightarrow> nat \<Rightarrow> signaling \<times> store \<Rightarrow> signaling \<times> store" where
  "joinAndSignal cfg E retryCount w =
     (let (s, db) = w in
      if isSignaling s \<or> retryCount > 3 then (s, db)
      else
        (let s0 = s\<lparr>isSignaling := True, heartbeatOn := False, processedOffer := False,
                    processedAnswer := False, subscribed := True\<rparr>
         in case select_rpc (selectFault E) db of
              None \<Rightarrow>
                (let s1 = s0\<lparr>role := Initiator, status := Preparing\<rparr>;
                     (db1, claimError) =
                        insert_rpc (writeFault E) (now E) (claimRow cfg) db
                 in if claimError
                    then (s1\<lparr>isSignaling := False,
                              timeouts := timeouts s1 @ [Rejoin (retryCount + 1) 300]\<rparr>, db1)
                    else if accepted E
                    then (s1\<lparr>peer := Some \<lparr> signalingState = HaveLocalOffer,
                                              localDescription = Some (created E),
                                              remoteDescription = None \<rparr>,
                              gatheringComplete := False,
                              timeouts := timeouts s1 @ [GatherTimeout],
                              heartbeatOn := True\<rparr>, db1)
                    else (s1\<lparr>peer := Some \<lparr> signalingState = Stable, localDescription = None,
                                              remoteDescription = None \<rparr>,
                              gatheringComplete := False,
                              timeouts := timeouts s1 @ [GatherTimeout],
                              isSignaling := False,
                              heartbeatOn := True\<rparr>, db1))
            | Some roomData \<Rightarrow>
                if truthy (initiator_id roomData) \<and> truthy (receiver_id roomData)
                then (if expired (peerId cfg) (now E) roomData
                      then (s0\<lparr>isSignaling := False, timeouts := timeouts s0 @ [Rejoin 0 500]\<rparr>,
                            delete_rpc (writeFault E) db)
                      else (s0\<lparr>status := RoomFull, isSignaling := False\<rparr>, db))
                else if \<not> truthy (receiver_id roomData)
                then (if passphrase_hash roomData \<noteq> pass_hash cfg
                      then (s0\<lparr>mismatchToasts := Suc (mismatchToasts s0), isSignaling := False,
                                timeouts := timeouts s0 @ [ExitTimer]\<rparr>, db)
                      else (let s1 = s0\<lparr>role := Receiver, status := Preparing\<rparr>
                            in case offer roomData of
                                 Some CLAIMED \<Rightarrow> (s1\<lparr>isSignaling := False\<rparr>, db)
                               | Some (SDP d) \<Rightarrow>
                                   ((receiveOffer E (Some d) (s1\<lparr>processedOffer := True\<rparr>))
                                      \<lparr>heartbeatOn := True\<rparr>, db)
                               | Some (NotDescription v) \<Rightarrow>
                                   ((receiveOffer E None (s1\<lparr>processedOffer := True\<rparr>))
                                      \<lparr>heartbeatOn := True\<rparr>, db)
                               | _ \<Rightarrow> (s1\<lparr>processedOffer := True, isSignaling := False,
                                            heartbeatOn := True\<rparr>, db)))
                else (s0\<lparr>status := RoomFull, isSignaling := False, heartbeatOn := True\<rparr>, db)))"

text \<open>The restarts after insert collisions: each run that ends with the collision timer
  is followed by the run that timer starts, in the environment of its own time. The
  result lists the state after every run whose body was entered.\<close>

fun joinChain :: "peerCfg \<Rightarrow> sigEnv list \<Rightarrow> nat \<Rightarrow> signaling \<times> store \<Rightarrow> (signaling \<times> store) list" where
  "joinChain cfg [] retryCount w = []"
| "joinChain cfg (E # Es) retryCount w =
     (if isSignaling (fst w) \<or> retryCount > 3 then []
      else (let w' = joinAndSignal cfg E retryCount w
            in w' # (if timeouts (fst w') = timeouts (fst w) @ [Rejoin (retryCount + 1) 300]
                     then joinChain cfg Es (retryCount + 1)
                            (fst w'\<lparr>timeouts := timeouts (fst w)\<rparr>, snd w')
                     else [])))"

text \<open>The subscription callback. \<open>subscribed\<close> is cleared by the cleanup, which removes
  the channel. In the offer branch the single-shot flag is set before the offer is
  parsed. In the answer branch the answer is parsed first, and the flag is set once the
  connection is found in \<^verbatim>\<open>have-local-offer\<close>, before the description is constructed and
  handed to \<^verbatim>\<open>setRemoteDescription\<close>.\<close>

datatype eventType = INSERT | UPDATE | DELETE

definition cleanupSignaling :: "signaling \<Rightarrow> signaling" where
  "cleanupSignaling s =
     s\<lparr>peer := None, timeouts := [], heartbeatOn := False, subscribed := False,
       reconnectTimeout := None, isSignaling := False, processedOffer := False,
       processedAnswer := False\<rparr>"

definition on_change :: "peerCfg \<Rightarrow> sigEnv \<Rightarrow> eventType \<Rightarrow> sigRow option \<Rightarrow> signaling \<Rightarrow> signaling" where
  "on_change cfg E ev new s =
     (if ev = DELETE
      then (if status s \<noteq> Connected then scheduleReconnect 500 (cleanupSignaling s) else s)
      else if ev = INSERT \<and> status s \<noteq> Connected \<and> role s = RoleNone
      then scheduleReconnect 300 (s\<lparr>isSignaling := False\<rparr>)
      else case new of
             None \<Rightarrow> s
           | Some updatedRoom \<Rightarrow>
               if truthy_sdp (offer updatedRoom) \<and> offer updatedRoom \<noteq> Some CLAIMED
                    \<and> role s = Receiver \<and> (status s = Preparing \<or> status s = Idle)
                    \<and> \<not> processedOffer s
               then (let s1 = s\<lparr>processedOffer := True, status := Preparing\<rparr>
                     in case offer updatedRoom of
                          Some (SDP d) \<Rightarrow> receiveOffer E (Some d) s1
                        | Some (NotDescription v) \<Rightarrow> receiveOffer E None s1
                        | _ \<Rightarrow> s1)
               else if truthy_sdp (answer updatedRoom) \<and> role s = Initiator \<and> \<not> processedAnswer s
               then (case peer s of
                       None \<Rightarrow> s
                     | Some pc \<Rightarrow>
                         if (signalingState pc = HaveLocalOffer \<or> signalingState pc = Stable)
                              \<and> initiator_id updatedRoom = Some (peerId cfg)
                         then (case answer updatedRoom of
                                 Some (SDP d) \<Rightarrow>
                                   if signalingState pc = HaveLocalOffer
                                   then s\<lparr>processedAnswer := True,
                                          srdCalls := srdCalls s @ [d],
                                          peer := Some (if accepted E
                                                        then pc\<lparr>signalingState := Stable,
                                                                remoteDescription := Some d\<rparr>
                                                        else pc)\<rparr>
                                   else s
                               | Some (NotDescription v) \<Rightarrow>
                                   if signalingState pc = HaveLocalOffer
                                   then s\<lparr>processedAnswer := True\<rparr>
                                   else s
                               | _ \<Rightarrow> s)
                         else s)
               else s)"


text \<open>One tick of the heartbeat interval: the column of the peer's own role is written
  again, by an update with no condition. After three failures in the connected state
  the peer joins again.\<close>

definition heartbeatPatch :: "handshakeRole \<Rightarrow> string \<Rightarrow> patch" where
  "heartbeatPatch r self =
     (if r = Initiator
      then \<lparr> set_initiator_id = Some self, set_receiver_id = None, set_offer = None,
             set_answer = None \<rparr>
      else \<lparr> set_initiator_id = None, set_receiver_id = Some self, set_offer = None,
             set_answer = None \<rparr>)"

definition heartbeat :: "peerCfg \<Rightarrow> sigEnv \<Rightarrow> signaling \<times> store \<Rightarrow> signaling \<times> store" where
  "heartbeat cfg E w =
     (let (s, db) = w in
      if \<not> heartbeatOn s \<or> role s = RoleNone then (s, db)
      else (let (db1, res) = update_rpc (writeFault E) (now E) False
                               (heartbeatPatch (role s) (peerId cfg)) db
            in if res = None
               then (let s1 = s\<lparr>heartbeatFailures := Suc (heartbeatFailures s)\<rparr>
                     in if heartbeatFailures s1 \<ge> 3 \<and> status s1 = Connected
                        then joinAndSignal cfg E 0 (s1\<lparr>heartbeatFailures := 0\<rparr>, db1)
                        else (s1, db1))
               else (s\<lparr>heartbeatFailures := 0\<rparr>, db1)))"

section \<open>Entering a session: the setup form and the magic link\<close>

datatype privacyFilter = NONE | BLUR | MOSAIC | BLACK

text \<open>The strings of this part are user texts, lists of code points; \<open>ascii\<close> gives the
  code points of a text written in ASCII.\<close>

record roomConfig =
  roomId :: jsstring
  passphrase :: jsstring
  userName :: jsstring
  recordingProtection :: bool
  ephemeralSession :: bool
  defaultFilter :: privacyFilter

definition ascii :: "string \<Rightarrow> jsstring" where
  "ascii s = map of_char s"

text \<open>\<^verbatim>\<open>toUpperCase\<close> maps every code point through the upper-case mapping of Unicode,
  which may give several code points for one. Below 128 the mapping is written out: the
  letters a..z go to A..Z and every other code point stays. From 128 on it is the table
  of the platform, the parameter \<open>U\<close>.\<close>

definition upper_cp :: "(nat \<Rightarrow> nat list) \<Rightarrow> nat \<Rightarrow> nat list" where
  "upper_cp U c = (if c < 128 then [if 97 \<le> c \<and> c \<le> 122 then c - 32 else c] else U c)"

definition toUpperCase :: "(nat \<Rightarrow> nat list) \<Rightarrow> jsstring \<Rightarrow> jsstring" where
  "toUpperCase U s = concat (map (upper_cp U) s)"

text \<open>\<^verbatim>\<open>trim\<close> removes white space and line terminators at both ends: tab, line feed,
  vertical tab, form feed, carriage return, the space separators of Unicode, the line
  and paragraph separators, and U+FEFF.\<close>

definition is_space :: "nat \<Rightarrow> bool" where
  "is_space c \<longleftrightarrow>
     c \<in> set [0x09, 0x0A, 0x0B, 0x0C, 0x0D, 0x20, 0xA0, 0x1680, 0x2028, 0x2029, 0x202F, 0x205F,
              0x3000, 0xFEFF]
       \<or> (0x2000 \<le> c \<and> c \<le> 0x200A)"

definition trim :: "jsstring \<Rightarrow> jsstring" where
  "trim s = rev (dropWhile is_space (rev (dropWhile is_space s)))"

text \<open>\<^verbatim>\<open>handleSubmit\<close> of the setup form.\<close>

definition handleSubmit :: "(nat \<Rightarrow> nat list) \<Rightarrow> jsstring \<Rightarrow> jsstring \<Rightarrow> jsstring \<Rightarrow> privacyFilter \<Rightarrow> roomConfig" where
  "handleSubmit U roomName pass name flt =
     \<lparr> roomId = toUpperCase U (trim roomName), passphrase = pass, userName = name,
       recordingProtection = True, ephemeralSession = True, defaultFilter = flt \<rparr>"

text \<open>\<^verbatim>\<open>new URLSearchParams(text)\<close>: a leading question mark is dropped and the text is parsed
  as a form. It is encoded in UTF-8 and the bytes are split at \<^verbatim>\<open>&\<close>; each non-empty piece
  is split at its first \<^verbatim>\<open>=\<close> into name and value (the value is empty when there is
  none); in both a plus sign becomes a space and \<^verbatim>\<open>%XY\<close> becomes the byte \<open>XY\<close>, and the
  bytes are decoded from UTF-8, with replacement and without removing a byte order
  mark. Bytes are numbers below 256 here.\<close>

fun split_on :: "nat \<Rightarrow> nat list \<Rightarrow> nat list list" where
  "split_on sep [] = [[]]"
| "split_on sep (c # cs) =
     (if c = sep then [] # split_on sep cs
      else (case split_on sep cs of [] \<Rightarrow> [[c]] | w # ws \<Rightarrow> (c # w) # ws))"

definition hex_digit :: "nat \<Rightarrow> nat option" where
  "hex_digit n =
     (if 48 \<le> n \<and> n \<le> 57 then Some (n - 48)
      else if 65 \<le> n \<and> n \<le> 70 then Some (n - 55)
      else if 97 \<le> n \<and> n \<le> 102 then Some (n - 87)
      else None)"

fun percent_decode :: "nat list \<Rightarrow> nat list" where
  "percent_decode (c # h # l # cs) =
     (if c = 0x25 then
        (case (hex_digit h, hex_digit l) of
           (Some a, Some b) \<Rightarrow> (a * 16 + b) # percent_decode cs
         | _ \<Rightarrow> c # percent_decode (h # l # cs))
      else c # percent_decode (h # l # cs))"
| "percent_decode (c # cs) = c # percent_decode cs"
| "percent_decode [] = []"

definition form_decode :: "nat list \<Rightarrow> jsstring" where
  "form_decode bs =
     utf8_decoder 0 0 0x80 0xBF (percent_decode (map (\<lambda>b. if b = 0x2B then 0x20 else b) bs))"

definition URLSearchParams :: "jsstring \<Rightarrow> (jsstring \<times> jsstring) list" where
  "URLSearchParams text =
     map (\<lambda>piece. (form_decode (takeWhile (\<lambda>b. b \<noteq> 0x3D) piece),
                    form_decode (drop 1 (dropWhile (\<lambda>b. b \<noteq> 0x3D) piece))))
       (filter (\<lambda>piece. piece \<noteq> [])
          (split_on 0x26
             (map unat (TextEncoder_encode (if take 1 text = [0x3F] then drop 1 text else text)))))"

definition params_get :: "(jsstring \<times> jsstring) list \<Rightarrow> jsstring \<Rightarrow> jsstring option" where
  "params_get ps name = map_of ps name"

text \<open>\<^verbatim>\<open>checkMagicLink\<close> on the fragment of the entry URL, with the generated guest name
  as an input: the configuration it stores, if it stores one.\<close>

definition checkMagicLink :: "jsstring \<Rightarrow> jsstring \<Rightarrow> roomConfig option" where
  "checkMagicLink hash guest =
     (let params = URLSearchParams (drop 1 hash)
      in case (params_get params (ascii ''room''), params_get params (ascii ''pass'')) of
           (Some room, Some pass) \<Rightarrow>
             if room \<noteq> [] \<and> pass \<noteq> []
             then Some \<lparr> roomId = room, passphrase = pass, userName = guest,
                         recordingProtection = True, ephemeralSession = True,
                         defaultFilter = NONE \<rparr>
             else None
         | _ \<Rightarrow> None)"

section \<open>States to run the definitions on\<close>

definition room0 :: room where
  "room0 =
     \<lparr> encryptionKeyRef = Some [7, 8],
       dataChannelsRef = Some \<lparr> readyState = Open, onbufferedamountlow = False,
                                onclose_upload = False \<rparr>,
       outbox = [], assemblies = [], receivingRef = None, pending = [], files = [],
       messages = [], blobUrlsRef = [],
       participants = [], toasts = [], abortControllerRef = False, transfer = None,
       connected = True, exited = False \<rparr>"

definition env0 :: env where
  "env0 = \<lparr> bufferedAmountAt = (\<lambda>n. 0), randomAt = (\<lambda>n. of_nat n) \<rparr>"

definition file_of_size :: "nat \<Rightarrow> jsfile" where
  "file_of_size n =
     \<lparr> file_name = ''a.bin'', file_type = ''application/octet-stream'',
       file_bytes = replicate n 0 \<rparr>"

definition sig0 :: signaling where
  "sig0 =
     \<lparr> role = RoleNone, status = Idle, isSignaling = False, processedOffer = False,
       processedAnswer = False, localSDP = None, peer = None, gatheringComplete = False,
       subscribed = False, heartbeatOn = False, heartbeatFailures = 0,
       reconnectTimeout = None, timeouts = [], srdCalls = [], mismatchToasts = 0 \<rparr>"

definition cfgA :: peerCfg where "cfgA = \<lparr> peerId = ''peer-a'', pass_hash = ''h'' \<rparr>"
definition cfgB :: peerCfg where "cfgB = \<lparr> peerId = ''peer-b'', pass_hash = ''h'' \<rparr>"
definition cfgC :: peerCfg where "cfgC = \<lparr> peerId = ''peer-c'', pass_hash = ''h'' \<rparr>"

definition sigEnv0 :: sigEnv where
  "sigEnv0 =
     \<lparr> now = 20000, selectFault = NoFault, writeFault = NoFault, created = ''local-sdp'',
       accepted = True \<rparr>"

text \<open>A row with both slots taken, last updated at \<open>t\<close>; and a row with the offer of
  \<open>peer-a\<close> posted and the receiver slot free.\<close>

definition full_row :: "int \<Rightarrow> sigRow" where
  "full_row t =
     \<lparr> passphrase_hash = ''h'', initiator_id = Some ''peer-a'', receiver_id = Some ''peer-b'',
       offer = Some (SDP ''offer-sdp''), answer = Some (SDP ''answer-sdp''),
       updated_at = Some t \<rparr>"

definition offered_row :: sigRow where
  "offered_row =
     \<lparr> passphrase_hash = ''h'', initiator_id = Some ''peer-a'', receiver_id = None,
       offer = Some (SDP ''offer-sdp''), answer = None, updated_at = Some 19000 \<rparr>"

text \<open>Two peers, \<open>peer-b\<close> and \<open>peer-c\<close>, find the offer of \<open>peer-a\<close> and both go for the
  receiver slot: both run the role election, \<open>peer-b\<close> finishes gathering and claims the
  slot, then \<open>peer-c\<close> does and loses; five seconds later the heartbeat of \<open>peer-c\<close>
  ticks.\<close>

definition race1 :: "signaling \<times> store" where
  "race1 = joinAndSignal cfgC sigEnv0 0 (sig0, Some offered_row)"

definition race2 :: "signaling \<times> store" where
  "race2 = joinAndSignal cfgB sigEnv0 0 (sig0, snd race1)"

definition race3 :: "signaling \<times> store" where
  "race3 = onicegatheringcomplete cfgB sigEnv0 race2"

definition race4 :: "signaling \<times> store" where
  "race4 = onicegatheringcomplete cfgC sigEnv0 (fst race1, snd race3)"

definition race5 :: "signaling \<times> store" where
  "race5 = heartbeat cfgC (sigEnv0\<lparr>now := 25000\<rparr>) race4"




text \<open>The k-th chunk of a buffer and the frame the send loop makes of it, with the k-th
  random draw as nonce.\<close>

definition chunkOf :: "bytes \<Rightarrow> nat \<Rightarrow> bytes" where
  "chunkOf buf k = take CHUNK_SIZE (drop (k * CHUNK_SIZE) buf)"

definition frameAt :: "subtle \<Rightarrow> env \<Rightarrow> cryptoKey \<Rightarrow> bytes \<Rightarrow> nat \<Rightarrow> frame" where
  "frameAt S E key buf k = Binary (pack (encryptBuffer S (randomAt E k) key (chunkOf buf k)))"

text \<open>The file-meta frame of an upload, and the state of the sender while the upload
  \<open>i\<close> of file \<open>f\<close> is its live transfer: the cursor stands after the chunks sent, the
  outbox holds \<open>ob\<close> and then their frames, and the entry of the transfer heads the
  file list, shown as completed only when the cursor is at the end.\<close>

definition metaOf :: "string \<Rightarrow> jsfile \<Rightarrow> fileMetaPayload" where
  "metaOf i f =
     \<lparr> meta_id = i, meta_name = file_name f, meta_size = file_size f,
       meta_mimeType = file_type f \<rparr>"

definition sending :: "subtle \<Rightarrow> env \<Rightarrow> cryptoKey \<Rightarrow> string \<Rightarrow> jsfile \<Rightarrow> frame list \<Rightarrow> room \<Rightarrow> bool" where
  "sending S E key i f ob r \<longleftrightarrow>
     (case transfer r of
        None \<Rightarrow> False
      | Some u \<Rightarrow>
          encryptionKeyRef r = Some key \<and> up_file u = f \<and> up_id u = i
          \<and> off u = min (draws u * CHUNK_SIZE) (length (file_bytes f))
          \<and> (draws u = 0 \<or> (draws u - 1) * CHUNK_SIZE < length (file_bytes f))
          \<and> outbox r = ob @ map (frameAt S E key (file_bytes f)) [0..<draws u]
          \<and> files r \<noteq> [] \<and> ft_id (hd (files r)) = i
          \<and> (ft_status (hd (files r)) = Completed \<longrightarrow> off u = length (file_bytes f)))"

text \<open>A file of two chunks: 64 KiB of ones, then one byte two.\<close>

definition two_chunk_file :: jsfile where
  "two_chunk_file =
     \<lparr> file_name = ''b.bin'', file_type = ''application/octet-stream'',
       file_bytes = replicate CHUNK_SIZE 1 @ [2] \<rparr>"


section \<open>Properties\<close>

subsection \<open>The send loop changes the outbox only\<close>

declare sendLoop.simps [simp del]

lemma sendLoop_step:
  "sendGuard E u r \<Longrightarrow>
   sendLoop S E key u r =
     sendLoop S E key
       (u\<lparr>off := off u + length (chunkAt u), reads := Suc (reads u), draws := Suc (draws u)\<rparr>)
       (dc_send (Binary (pack (encryptBuffer S (randomAt E (draws u)) key (chunkAt u)))) r)"
  by (subst sendLoop.simps) (simp add: Let_def)

lemma sendLoop_stop:
  "\<not> sendGuard E u r \<Longrightarrow> sendLoop S E key u r = (u\<lparr>reads := Suc (reads u)\<rparr>, r)"
  by (subst sendLoop.simps) simp

lemma dc_open_dc_send [simp]: "dc_open (dc_send fr r) = dc_open r"
  by (simp add: dc_open_def dc_send_def)

lemma dc_open_outbox [simp]: "dc_open (r\<lparr>outbox := ob\<rparr>) = dc_open r"
  by (simp add: dc_open_def)

lemma sendLoop_only_outbox:
  "snd (sendLoop S E key u r) = r\<lparr>outbox := outbox (snd (sendLoop S E key u r))\<rparr>"
proof (induction S E key u r rule: sendLoop.induct)
  case (1 S E key u r)
  show ?case
  proof (cases "sendGuard E u r")
    case True
    show ?thesis
      using "1.IH" [OF True refl refl]
      by (simp add: sendLoop_step [OF True] dc_send_def)
  next
    case False
    then show ?thesis by (simp add: sendLoop_stop)
  qed
qed

lemma sendLoop_outbox_prefix:
  "\<exists>fs. outbox (snd (sendLoop S E key u r)) = outbox r @ map Binary fs"
proof (induction S E key u r rule: sendLoop.induct)
  case (1 S E key u r)
  show ?case
  proof (cases "sendGuard E u r")
    case True
    from "1.IH" [OF True refl refl] obtain fs where
      "outbox (snd (sendLoop S E key
       (u\<lparr>off := off u + length (chunkAt u), reads := Suc (reads u), draws := Suc (draws u)\<rparr>)
       (dc_send (Binary (pack (encryptBuffer S (randomAt E (draws u)) key (chunkAt u)))) r))) =
       outbox (dc_send (Binary (pack (encryptBuffer S (randomAt E (draws u)) key (chunkAt u)))) r)
         @ map Binary fs"
      by blast
    then have "outbox (snd (sendLoop S E key u r)) =
       outbox r @ map Binary (pack (encryptBuffer S (randomAt E (draws u)) key (chunkAt u)) # fs)"
      by (simp add: sendLoop_step [OF True] dc_send_def)
    then show ?thesis by blast
  next
    case False
    then have "outbox (snd (sendLoop S E key u r)) = outbox r @ map Binary []"
      by (simp add: sendLoop_stop)
    then show ?thesis by blast
  qed
qed

lemma sendLoop_shape:
  "\<exists>u' fs. sendLoop S E key u r = (u', r\<lparr>outbox := outbox r @ map Binary fs\<rparr>)"
proof -
  obtain fs where fs: "outbox (snd (sendLoop S E key u r)) = outbox r @ map Binary fs"
    using sendLoop_outbox_prefix by blast
  have "sendLoop S E key u r = (fst (sendLoop S E key u r), snd (sendLoop S E key u r))"
    by simp
  also have "snd (sendLoop S E key u r) = r\<lparr>outbox := outbox r @ map Binary fs\<rparr>"
    using sendLoop_only_outbox [of S E key u r] fs by simp
  finally show ?thesis by blast
qed

lemma sendNext_open:
  assumes "dc_open r"
  shows "\<exists>fs. outbox (sendNext S E r) = outbox r @ map Binary fs
           \<and> toasts (sendNext S E r) = toasts r"
proof (cases "transfer r")
  case None
  then have "sendNext S E r = r" by (simp add: sendNext_def)
  then have "outbox (sendNext S E r) = outbox r @ map Binary []
               \<and> toasts (sendNext S E r) = toasts r"
    by simp
  then show ?thesis by blast
next
  case (Some u0)
  show ?thesis
  proof (cases "encryptionKeyRef r")
    case None
    then have "sendNext S E r = r" using Some by (simp add: sendNext_def)
    then have "outbox (sendNext S E r) = outbox r @ map Binary []
                 \<and> toasts (sendNext S E r) = toasts r"
      by simp
    then show ?thesis by blast
  next
    case (Some key)
    obtain u' fs where l: "sendLoop S E key u0 r = (u', r\<lparr>outbox := outbox r @ map Binary fs\<rparr>)"
      using sendLoop_shape by blast
    show ?thesis
    proof (cases "aborted u0")
      case True
      then have "sendNext S E r = r"
        using Some \<open>transfer r = Some u0\<close> by (simp add: sendNext_def)
      then have "outbox (sendNext S E r) = outbox r @ map Binary []
                   \<and> toasts (sendNext S E r) = toasts r"
        by simp
      then show ?thesis by blast
    next
      case False
      have "outbox (sendNext S E r) = outbox r @ map Binary fs
              \<and> toasts (sendNext S E r) = toasts r"
        using Some \<open>transfer r = Some u0\<close> False l assms
        by (simp add: sendNext_def afterLoop_def Let_def dc_open_def)
      then show ?thesis by blast
    qed
  qed
qed

subsection \<open>The size limit of an upload\<close>

text \<open>
  Claim C8. A file larger than 100 MiB is rejected before anything is sent: the call
  changes nothing but the toast (and nothing at all without a key), so no frame, not
  even the file-meta frame, reaches the channel. A file of exactly 100 MiB passes the
  check: with a key and an open channel no toast is shown and the file-meta frame is
  sent, followed by binary frames only.
\<close>

theorem upload_size_limit:
  "(MAX_FILE_SIZE < file_size f \<longrightarrow>
      handleFileUpload S E i f r =
        (if encryptionKeyRef r = None then r else r\<lparr>toasts := toasts r @ [ToastFileTooLarge]\<rparr>))
   \<and> (file_size f = MAX_FILE_SIZE \<and> encryptionKeyRef r \<noteq> None \<and> dc_open r \<longrightarrow>
        toasts (handleFileUpload S E i f r) = toasts r \<and>
        (\<exists>fs. outbox (handleFileUpload S E i f r) =
           outbox r @ Text (FileMeta \<lparr> meta_id = i, meta_name = file_name f,
             meta_size = MAX_FILE_SIZE, meta_mimeType = file_type f \<rparr>) # map Binary fs))"
proof (intro conjI impI)
  assume "MAX_FILE_SIZE < file_size f"
  then show "handleFileUpload S E i f r =
        (if encryptionKeyRef r = None then r else r\<lparr>toasts := toasts r @ [ToastFileTooLarge]\<rparr>)"
    by (simp add: handleFileUpload_def)
next
  assume a: "file_size f = MAX_FILE_SIZE \<and> encryptionKeyRef r \<noteq> None \<and> dc_open r"
  define meta where "meta = \<lparr> meta_id = i, meta_name = file_name f,
             meta_size = MAX_FILE_SIZE, meta_mimeType = file_type f \<rparr>"
  define r1 where "r1 = dc_send (Text (FileMeta meta)) r"
  define r2 where "r2 = r1\<lparr>abortControllerRef := True,
       files := \<lparr> ft_id = i, ft_name = file_name f, ft_size = file_size f,
                  ft_status = Transferring, ft_mimeType = file_type f \<rparr> # files r1,
       transfer := Some \<lparr> up_id = i, up_file = f, off = 0, aborted = False,
                           reads = 0, draws = 0 \<rparr>,
       dataChannelsRef := map_option (\<lambda>dc. dc\<lparr>onclose_upload := True\<rparr>) (dataChannelsRef r1)\<rparr>"
  from a obtain key where key: "encryptionKeyRef r = Some key" by auto
  have h: "handleFileUpload S E i f r = sendNext S E r2"
    using a key by (simp add: handleFileUpload_def Let_def r2_def r1_def meta_def)
  have o: "dc_open r2"
    using a by (auto simp: r2_def r1_def dc_open_def dc_send_def split: option.splits)
  have ob: "outbox r2 = outbox r @ [Text (FileMeta meta)]" and t: "toasts r2 = toasts r"
    by (simp_all add: r2_def r1_def dc_send_def)
  from sendNext_open [OF o, of S E] obtain fs where
    "outbox (sendNext S E r2) = outbox r2 @ map Binary fs" "toasts (sendNext S E r2) = toasts r2"
    by blast
  then have "toasts (handleFileUpload S E i f r) = toasts r"
    and "outbox (handleFileUpload S E i f r) = outbox r @ Text (FileMeta meta) # map Binary fs"
    using h ob t by simp_all
  then show "toasts (handleFileUpload S E i f r) = toasts r"
    and "\<exists>fs. outbox (handleFileUpload S E i f r) =
           outbox r @ Text (FileMeta \<lparr> meta_id = i, meta_name = file_name f,
             meta_size = MAX_FILE_SIZE, meta_mimeType = file_type f \<rparr>) # map Binary fs"
    unfolding meta_def by blast+
qed

theorem upload_size_limit_witness:
  "handleFileUpload toy_subtle env0 ''f1'' (file_of_size (MAX_FILE_SIZE + 1)) room0
     = room0\<lparr>toasts := [ToastFileTooLarge]\<rparr>
   \<and> toasts (handleFileUpload toy_subtle env0 ''f1'' (file_of_size MAX_FILE_SIZE) room0) = []
   \<and> (\<exists>fs. outbox (handleFileUpload toy_subtle env0 ''f1'' (file_of_size MAX_FILE_SIZE) room0) =
        Text (FileMeta \<lparr> meta_id = ''f1'', meta_name = ''a.bin'', meta_size = MAX_FILE_SIZE,
          meta_mimeType = ''application/octet-stream'' \<rparr>) # map Binary fs)"
  using upload_size_limit [of "file_of_size (MAX_FILE_SIZE + 1)" toy_subtle env0 "''f1''" room0]
        upload_size_limit [of "file_of_size MAX_FILE_SIZE" toy_subtle env0 "''f1''" room0]
  by (simp add: file_of_size_def file_size_def room0_def dc_open_def)

subsection \<open>A binary frame with no assembly in progress\<close>

text \<open>
  Claim C10. A binary frame that arrives while no inbound file assembly is in progress
  is dropped: whatever the cipher would answer, the handler returns the state it was
  given, so nothing is decrypted, no toast is shown and no field changes.
\<close>

theorem binary_frame_without_assembly:
  "receivingRef r = None \<Longrightarrow> onmessage S r (Binary d) = r"
  by (simp add: handleFileChunkReceive_def)

theorem binary_frame_without_assembly_witness:
  "receivingRef room0 = None \<and> onmessage toy_subtle room0 (Binary [1, 2, 3]) = room0"
  using binary_frame_without_assembly [of room0 toy_subtle "[1, 2, 3]"]
  by (simp add: room0_def)

subsection \<open>Reclaiming a stale row\<close>

text \<open>
  Claim C6, as the spec states it, fails: a fully occupied row of which the peer is an
  occupant and which is exactly 8 s (8000 ms) stale is not reclaimed. The row stays,
  no restart is scheduled and the machine enters room-full.
\<close>

theorem exactly_8s_stale_not_reclaimed:
  "snd (joinAndSignal cfgA sigEnv0 0 (sig0, Some (full_row 12000))) = Some (full_row 12000)
   \<and> status (fst (joinAndSignal cfgA sigEnv0 0 (sig0, Some (full_row 12000)))) = RoomFull
   \<and> timeouts (fst (joinAndSignal cfgA sigEnv0 0 (sig0, Some (full_row 12000)))) = []"
  by (simp add: joinAndSignal_def sig0_def cfgA_def sigEnv0_def full_row_def select_rpc_def
        truthy_def expired_def SESSION_EXPIRY_def)

text \<open>
  Claim C6, amended. For a role election that reads a fully occupied row of which the
  peer is an occupant: when the row is more than 8 s stale it is deleted and the
  procedure is restarted (with retry count 0, after 500 ms); when it is at most 8 s
  stale (so at 7.9 s, and at exactly 8 s) it is kept, nothing is scheduled and the
  machine enters room-full.
\<close>

theorem stale_row_reclaim:
  assumes "\<not> isSignaling s" and "retryCount \<le> 3"
    and "selectFault E = NoFault" and "writeFault E = NoFault"
    and "truthy (initiator_id rd)" and "truthy (receiver_id rd)"
    and "initiator_id rd = Some (peerId cfg) \<or> receiver_id rd = Some (peerId cfg)"
    and "updated_at rd = Some u"
  shows "(8000 < now E - u \<longrightarrow>
            snd (joinAndSignal cfg E retryCount (s, Some rd)) = None
            \<and> timeouts (fst (joinAndSignal cfg E retryCount (s, Some rd)))
                = timeouts s @ [Rejoin 0 500]
            \<and> status (fst (joinAndSignal cfg E retryCount (s, Some rd))) = status s)
       \<and> (now E - u \<le> 8000 \<longrightarrow>
            snd (joinAndSignal cfg E retryCount (s, Some rd)) = Some rd
            \<and> timeouts (fst (joinAndSignal cfg E retryCount (s, Some rd))) = timeouts s
            \<and> status (fst (joinAndSignal cfg E retryCount (s, Some rd))) = RoomFull)"
  using assms
  by (auto simp: joinAndSignal_def select_rpc_def expired_def SESSION_EXPIRY_def delete_rpc_def)

theorem stale_row_reclaim_witness:
  "snd (joinAndSignal cfgA sigEnv0 0 (sig0, Some (full_row 11999))) = None
   \<and> timeouts (fst (joinAndSignal cfgA sigEnv0 0 (sig0, Some (full_row 11999)))) = [Rejoin 0 500]
   \<and> snd (joinAndSignal cfgA sigEnv0 0 (sig0, Some (full_row 12100))) = Some (full_row 12100)
   \<and> status (fst (joinAndSignal cfgA sigEnv0 0 (sig0, Some (full_row 12100)))) = RoomFull"
  using stale_row_reclaim [of sig0 0 sigEnv0 "full_row 11999" cfgA 11999]
        stale_row_reclaim [of sig0 0 sigEnv0 "full_row 12100" cfgA 12100]
  by (simp add: sig0_def sigEnv0_def full_row_def cfgA_def truthy_def)

subsection \<open>Restarts after an insert collision\<close>

lemma joinChain_bound: "length (joinChain cfg Es n w) \<le> 4 - n"
proof (induction Es arbitrary: n w)
  case Nil
  then show ?case by simp
next
  case (Cons E Es)
  show ?case
  proof (cases "isSignaling (fst w) \<or> n > 3")
    case True
    then show ?thesis by auto
  next
    case False
    then have n: "n \<le> 3" by simp
    define w' where "w' = joinAndSignal cfg E n w"
    have "length (joinChain cfg Es (n + 1) (fst w'\<lparr>timeouts := timeouts (fst w)\<rparr>, snd w'))
            \<le> 4 - (n + 1)"
      by (rule Cons.IH)
    then have "Suc (length (joinChain cfg Es (n + 1)
                 (fst w'\<lparr>timeouts := timeouts (fst w)\<rparr>, snd w'))) \<le> 4 - n"
      using n by arith
    then show ?thesis using False n
      by (simp add: Let_def w'_def)
  qed
qed

text \<open>
  Claim C7, as the spec states it, fails: when every insert fails, the procedure runs
  four times (retry counts 0, 1, 2 and 3), not three.
\<close>

theorem four_runs_on_collisions:
  "length (joinChain cfgA (replicate 6 (sigEnv0\<lparr>writeFault := RequestLost\<rparr>)) 0 (sig0, None)) = 4"
  by (simp add: joinAndSignal_def sig0_def cfgA_def sigEnv0_def select_rpc_def insert_rpc_def
        numeral_eq_Suc)

text \<open>
  Claim C7, amended. For a role election that finds the row absent, a failed insert
  makes the procedure restart: the run ends with the signaling flag cleared and
  \<^verbatim>\<open>joinAndSignal(retryCount + 1)\<close> scheduled after 300 ms. A call with a retry count
  above 3 does nothing, so along such restarts the procedure is run at most 4 times in
  total (the first run and 3 retries).
\<close>

theorem join_retry_bound:
  "length (joinChain cfg Es 0 w) \<le> 4
   \<and> (\<not> isSignaling s \<and> n \<le> 3 \<and> select_rpc (selectFault E) db = None
        \<and> snd (insert_rpc (writeFault E) (now E) (claimRow cfg) db) \<longrightarrow>
      timeouts (fst (joinAndSignal cfg E n (s, db))) = timeouts s @ [Rejoin (n + 1) 300]
      \<and> \<not> isSignaling (fst (joinAndSignal cfg E n (s, db))))
   \<and> (3 < n \<longrightarrow> joinAndSignal cfg E n (s, db) = (s, db))"
proof (intro conjI impI)
  show "length (joinChain cfg Es 0 w) \<le> 4"
    using joinChain_bound [of cfg Es 0 w] by simp
next
  assume a: "\<not> isSignaling s \<and> n \<le> 3 \<and> select_rpc (selectFault E) db = None
        \<and> snd (insert_rpc (writeFault E) (now E) (claimRow cfg) db)"
  then show "timeouts (fst (joinAndSignal cfg E n (s, db))) = timeouts s @ [Rejoin (n + 1) 300]"
    and "\<not> isSignaling (fst (joinAndSignal cfg E n (s, db)))"
    by (simp_all add: joinAndSignal_def Let_def split_beta)
next
  assume "3 < n"
  then show "joinAndSignal cfg E n (s, db) = (s, db)"
    by (simp add: joinAndSignal_def)
qed

theorem join_retry_bound_witness:
  "length (joinChain cfgA (replicate 6 (sigEnv0\<lparr>writeFault := RequestLost\<rparr>)) 0 (sig0, None)) \<le> 4
   \<and> timeouts (fst (joinAndSignal cfgA (sigEnv0\<lparr>writeFault := RequestLost\<rparr>) 3 (sig0, None)))
       = [Rejoin 4 300]
   \<and> joinAndSignal cfgA (sigEnv0\<lparr>writeFault := RequestLost\<rparr>) 4 (sig0, None) = (sig0, None)"
  using join_retry_bound [of cfgA "replicate 6 (sigEnv0\<lparr>writeFault := RequestLost\<rparr>)"
          "(sig0, None)" sig0 3 "sigEnv0\<lparr>writeFault := RequestLost\<rparr>" None]
        join_retry_bound [of cfgA "[]" "(sig0, None)" sig0 4
          "sigEnv0\<lparr>writeFault := RequestLost\<rparr>" None]
  by (simp add: sig0_def sigEnv0_def select_rpc_def insert_rpc_def)

subsection \<open>The receiver's claim of the slot\<close>

text \<open>
  Claim C3. In a receiver handshake, gathering completion and the gathering timeout both
  run \<^verbatim>\<open>sendAnswer\<close> with the local description. It makes one update that sets
  receiver-id to the peer and answer to the local description, on condition that
  receiver-id is null. When the update matches the row, the row is written and the
  machine enters ready. When it matches no row (no row, or receiver-id already set),
  nothing is written, the row is read again, and the machine enters ready if the
  receiver-id read is the peer's own and room-full otherwise. When the update was
  applied but its reply was lost, the second read finds the peer's own id and the
  machine enters ready.
\<close>

theorem receiver_claim:
  assumes "\<not> gatheringComplete s"
  shows "(writeFault E = NoFault \<and> db = Some rd \<and> receiver_id rd = None \<longrightarrow>
            status (fst (sendAnswer cfg E d (s, db))) = Ready
            \<and> snd (sendAnswer cfg E d (s, db)) =
                Some (rd\<lparr>receiver_id := Some (peerId cfg), answer := Some (encodeLocal d),
                         updated_at := Some (now E)\<rparr>))
       \<and> (writeFault E = NoFault \<and> (db = None \<or> (\<exists>rd. db = Some rd \<and> receiver_id rd \<noteq> None)) \<longrightarrow>
            snd (sendAnswer cfg E d (s, db)) = db
            \<and> status (fst (sendAnswer cfg E d (s, db))) =
                (if \<exists>rd. select_rpc (selectFault E) db = Some rd \<and> receiver_id rd = Some (peerId cfg)
                 then Ready else RoomFull))
       \<and> (writeFault E = ReplyLost \<and> selectFault E = NoFault \<and> db = Some rd \<and> receiver_id rd = None \<longrightarrow>
            status (fst (sendAnswer cfg E d (s, db))) = Ready)
       \<and> (role s = Receiver \<and> peer s = Some pc \<and> localDescription pc = Some l \<longrightarrow>
            onicegatheringcomplete cfg E (s, db) = sendAnswer cfg E (Some l) (s, db)
            \<and> gatherTimeout cfg E (s, db) = sendAnswer cfg E (Some l) (s, db))"
  using assms
  by (auto simp: sendAnswer_def update_rpc_def db_update_def select_rpc_def claimPatch_def
        apply_patch_def onicegatheringcomplete_def gatherTimeout_def send_description_def Let_def
        split: option.splits)

theorem receiver_claim_witness:
  "status (fst (sendAnswer cfgB sigEnv0 (Some ''answer-b'') (sig0, Some offered_row))) = Ready
   \<and> snd (sendAnswer cfgB sigEnv0 (Some ''answer-b'') (sig0, Some offered_row)) =
       Some (offered_row\<lparr>receiver_id := Some ''peer-b'', answer := Some (SDP ''answer-b''),
                         updated_at := Some 20000\<rparr>)
   \<and> snd (sendAnswer cfgC sigEnv0 (Some ''answer-c'') (sig0, Some (full_row 19000)))
       = Some (full_row 19000)
   \<and> status (fst (sendAnswer cfgC sigEnv0 (Some ''answer-c'') (sig0, Some (full_row 19000))))
       = RoomFull
   \<and> status (fst (sendAnswer cfgB sigEnv0 (Some ''answer-b'') (sig0, Some (full_row 19000))))
       = Ready
   \<and> status (fst (sendAnswer cfgB (sigEnv0\<lparr>writeFault := ReplyLost\<rparr>) (Some ''answer-b'')
                (sig0, Some offered_row))) = Ready"
  using receiver_claim [of sig0 sigEnv0 "Some offered_row" offered_row cfgB "Some ''answer-b''"]
        receiver_claim [of sig0 sigEnv0 "Some (full_row 19000)" offered_row cfgC "Some ''answer-c''"]
        receiver_claim [of sig0 sigEnv0 "Some (full_row 19000)" offered_row cfgB "Some ''answer-b''"]
        receiver_claim [of sig0 "sigEnv0\<lparr>writeFault := ReplyLost\<rparr>" "Some offered_row" offered_row
          cfgB "Some ''answer-b''"]
  by (simp add: sig0_def sigEnv0_def offered_row_def full_row_def cfgB_def cfgC_def
        encodeLocal_def select_rpc_def)

subsection \<open>Writes of the receiver column\<close>

lemmas race_defs = race1_def race2_def race3_def race4_def race5_def
  joinAndSignal_def onicegatheringcomplete_def heartbeat_def send_description_def sendAnswer_def
  sig0_def cfgB_def cfgC_def sigEnv0_def offered_row_def select_rpc_def update_rpc_def db_update_def
  truthy_def receiveOffer_def claimPatch_def heartbeatPatch_def apply_patch_def encodeLocal_def
  Let_def

text \<open>The claim of the slot is conditional: \<^verbatim>\<open>sendAnswer\<close> leaves a row whose receiver-id is
  set as it is, whatever happens to the request.\<close>

lemma sendAnswer_keeps_taken_slot:
  "receiver_id rd \<noteq> None \<Longrightarrow> snd (sendAnswer cfg E d (s, Some rd)) = Some rd"
  by (cases "writeFault E")
     (auto simp: sendAnswer_def update_rpc_def db_update_def Let_def split: option.splits)

text \<open>
  Claim C4 holds of the handshake and is broken by the heartbeat. The receiver slot is
  claimed by an update on condition that receiver-id is null, and a peer whose claim
  matches no row enters room-full. But the heartbeat interval of that peer keeps running:
  it tests neither the status nor the row, the role of the peer is still receiver, and
  its update has no condition. In the race of \<open>peer-b\<close> and \<open>peer-c\<close> for the slot,
  \<open>peer-b\<close> wins the conditional update, the claim of \<open>peer-c\<close> leaves the row as it is
  and \<open>peer-c\<close> enters room-full; at its next heartbeat \<open>peer-c\<close> sets receiver-id a
  second time, to its own id, over that of \<open>peer-b\<close>.
\<close>

theorem heartbeat_overwrites_receiver:
  "map_option receiver_id (snd race3) = Some (Some ''peer-b'')
   \<and> status (fst race4) = RoomFull
   \<and> snd race4 = snd race3
   \<and> role (fst race4) = Receiver
   \<and> heartbeatOn (fst race4)
   \<and> status (fst race5) = RoomFull
   \<and> map_option receiver_id (snd race5) = Some (Some ''peer-c'')"
  by (simp add: race_defs)

subsection \<open>Duplicate change notifications\<close>

lemma on_change_role [simp]: "role (on_change cfg E ev new s) = role s"
  by (simp add: on_change_def scheduleReconnect_def cleanupSignaling_def receiveOffer_def Let_def
        split: option.splits sdpText.splits)

















subsection \<open>The room identifier of the two ways in\<close>

text \<open>
  Claim C9 asks for an upper-case room identifier on every way into a session. The setup
  form upper-cases the room name; the magic link stores the identifier of the fragment
  as it is written. For the fragment \<^verbatim>\<open>#room=alpha&pass=secret\<close> the stored identifier
  is \<^verbatim>\<open>alpha\<close>, where the form gives \<^verbatim>\<open>ALPHA\<close> for the same room name.
\<close>

theorem magic_link_keeps_lower_case:
  "checkMagicLink (ascii ''#room=alpha&pass=secret'') (ascii ''guest'') =
     Some \<lparr> roomId = ascii ''alpha'', passphrase = ascii ''secret'', userName = ascii ''guest'',
            recordingProtection = True, ephemeralSession = True, defaultFilter = NONE \<rparr>
   \<and> toUpperCase U (ascii ''alpha'') = ascii ''ALPHA''
   \<and> roomId (handleSubmit U (ascii ''alpha'') (ascii ''secret'') (ascii ''guest'') NONE)
       = ascii ''ALPHA''"
  by (simp add: checkMagicLink_def URLSearchParams_def params_get_def form_decode_def
        handleSubmit_def toUpperCase_def upper_cp_def trim_def is_space_def ascii_def
        TextEncoder_encode_def utf8_encode_cp_def is_surrogate_def hex_digit_def)

subsection \<open>Frames of a file transfer\<close>

lemma length_getRandomValues12 [simp]: "length (getRandomValues12 r) = 12"
  by (simp add: getRandomValues12_def)

lemma pack_frame:
  "pack (encryptBuffer S rnd key chunk) =
     getRandomValues12 rnd @ encrypt S key (getRandomValues12 rnd) chunk"
  by (simp add: pack_def encryptBuffer_def Let_def)

lemma unpack_frame:
  assumes "aead_correct S"
  shows "decryptBuffer S key (drop 12 (pack (encryptBuffer S rnd key chunk)))
           (take 12 (pack (encryptBuffer S rnd key chunk))) = Some chunk"
  using assms by (simp add: pack_frame decryptBuffer_def aead_correct_def)

lemma chunkAt_chunkOf:
  "off u = draws u * CHUNK_SIZE \<Longrightarrow> chunkAt u = chunkOf (file_bytes (up_file u)) (draws u)"
  by (simp add: chunkAt_def chunkOf_def)

lemma length_chunkOf: "length (chunkOf buf k) = min CHUNK_SIZE (length buf - k * CHUNK_SIZE)"
  by (simp add: chunkOf_def min.commute)


lemma hd_set_status:
  "fs \<noteq> [] \<Longrightarrow> ft_id (hd fs) = i \<Longrightarrow>
   set_status i st fs \<noteq> [] \<and> ft_id (hd (set_status i st fs)) = i
     \<and> ft_status (hd (set_status i st fs)) = st"
  by (cases fs) (simp_all add: set_status_def)

lemma sendLoop_frames:
  assumes "off u = min (draws u * CHUNK_SIZE) (length (file_bytes (up_file u)))"
    and "draws u = 0 \<or> (draws u - 1) * CHUNK_SIZE < length (file_bytes (up_file u))"
  shows "up_file (fst (sendLoop S E key u r)) = up_file u
       \<and> up_id (fst (sendLoop S E key u r)) = up_id u
       \<and> aborted (fst (sendLoop S E key u r)) = aborted u
       \<and> draws u \<le> draws (fst (sendLoop S E key u r))
       \<and> off (fst (sendLoop S E key u r))
           = min (draws (fst (sendLoop S E key u r)) * CHUNK_SIZE) (length (file_bytes (up_file u)))
       \<and> (draws (fst (sendLoop S E key u r)) = 0
            \<or> (draws (fst (sendLoop S E key u r)) - 1) * CHUNK_SIZE < length (file_bytes (up_file u)))
       \<and> snd (sendLoop S E key u r)
           = r\<lparr>outbox := outbox r @ map (frameAt S E key (file_bytes (up_file u)))
                                      [draws u..<draws (fst (sendLoop S E key u r))]\<rparr>"
  using assms
proof (induction S E key u r rule: sendLoop.induct)
  case (1 S E key u r)
  define buf where "buf = file_bytes (up_file u)"
  show ?case
  proof (cases "sendGuard E u r")
    case False
    then show ?thesis using "1.prems" by (simp add: sendLoop_stop)
  next
    case True
    then have lt: "off u < length buf" by (simp add: sendGuard_def buf_def)
    with "1.prems"(1) have offd: "off u = draws u * CHUNK_SIZE"
      by (simp add: buf_def min_def split: if_splits)
    let ?u1 = "u\<lparr>off := off u + length (chunkAt u), reads := Suc (reads u),
                             draws := Suc (draws u)\<rparr>"
    let ?r1 = "dc_send (Binary (pack (encryptBuffer S (randomAt E (draws u)) key (chunkAt u)))) r"
    let ?res = "sendLoop S E key ?u1 ?r1"
    have step: "sendLoop S E key u r = ?res"
      by (rule sendLoop_step [OF True])
    have ch: "chunkAt u = chunkOf buf (draws u)"
      using chunkAt_chunkOf [OF offd] by (simp add: buf_def)
    have p1: "off ?u1 = min (draws ?u1 * CHUNK_SIZE) (length (file_bytes (up_file ?u1)))"
      using lt offd by (simp add: ch length_chunkOf buf_def min_def) arith
    have p2: "draws ?u1 = 0 \<or> (draws ?u1 - 1) * CHUNK_SIZE < length (file_bytes (up_file ?u1))"
      using lt offd by (simp add: buf_def)
    have r1': "?r1 = r\<lparr>outbox := outbox r @ [frameAt S E key buf (draws u)]\<rparr>"
      by (simp add: dc_send_def frameAt_def ch)
    note ih = "1.IH" [OF True refl refl p1 p2]
    from ih have i1: "up_file (fst ?res) = up_file u" "up_id (fst ?res) = up_id u"
      "aborted (fst ?res) = aborted u" by simp_all
    from ih have d: "Suc (draws u) \<le> draws (fst ?res)" by simp
    from ih have i2: "off (fst ?res) = min (draws (fst ?res) * CHUNK_SIZE) (length buf)"
      "draws (fst ?res) = 0 \<or> (draws (fst ?res) - 1) * CHUNK_SIZE < length buf"
      by (auto simp: buf_def)
    from ih have i3: "snd ?res = ?r1\<lparr>outbox := outbox ?r1 @ map (frameAt S E key buf)
                                      [Suc (draws u)..<draws (fst ?res)]\<rparr>"
      by (simp add: buf_def)
    from d have upt: "[draws u..<draws (fst ?res)] = draws u # [Suc (draws u)..<draws (fst ?res)]"
      by (simp add: upt_conv_Cons)
    have ob: "snd ?res = r\<lparr>outbox := outbox r @ map (frameAt S E key buf)
                                      [draws u..<draws (fst ?res)]\<rparr>"
      by (subst i3, subst upt, simp add: r1')
    from d have d': "draws u \<le> draws (fst ?res)" by simp
    show ?thesis
      unfolding step buf_def [symmetric]
      using i1 d' i2 ob by (simp add: buf_def)
  qed
qed

lemma upt_split: "a \<le> b \<Longrightarrow> [0..<a] @ [a..<b] = [0..<b]"
proof -
  assume "a \<le> b"
  then obtain k where "b = a + k" using le_Suc_ex by blast
  then show ?thesis using upt_add_eq_append [of 0 a k] by simp
qed

lemma sendNext_unfold:
  assumes "transfer r = Some u0" and "encryptionKeyRef r = Some key" and "\<not> aborted u0"
    and "u = fst (sendLoop S E key u0 r)"
    and "r2 = (snd (sendLoop S E key u0 r))\<lparr>transfer := Some u\<rparr>"
  shows "sendNext S E r = afterLoop u r2"
  using assms by (simp add: sendNext_def split_beta)

lemma sendNext_fields:
  assumes t: "transfer r = Some u0" and k: "encryptionKeyRef r = Some key" and na: "\<not> aborted u0"
  shows "transfer (sendNext S E r) = Some (fst (sendLoop S E key u0 r))
       \<and> encryptionKeyRef (sendNext S E r) = Some key
       \<and> outbox (sendNext S E r) = outbox (snd (sendLoop S E key u0 r))
       \<and> (files (sendNext S E r) = files r
            \<or> files (sendNext S E r) = set_status (up_id (fst (sendLoop S E key u0 r))) Failed (files r)
            \<or> (files (sendNext S E r)
                  = set_status (up_id (fst (sendLoop S E key u0 r))) Completed (files r)
                \<and> length (file_bytes (up_file (fst (sendLoop S E key u0 r))))
                     \<le> off (fst (sendLoop S E key u0 r))))"
proof -
  define u where "u = fst (sendLoop S E key u0 r)"
  define r2 where "r2 = (snd (sendLoop S E key u0 r))\<lparr>transfer := Some u\<rparr>"
  note unf = sendNext_unfold [OF t k na u_def r2_def, of ]
  have so: "snd (sendLoop S E key u0 r) = r\<lparr>outbox := outbox (snd (sendLoop S E key u0 r))\<rparr>"
    by (rule sendLoop_only_outbox)
  have r2f: "transfer r2 = Some u" "outbox r2 = outbox (snd (sendLoop S E key u0 r))"
    by (simp_all add: r2_def)
  have "encryptionKeyRef r2 = encryptionKeyRef (r\<lparr>outbox := outbox (snd (sendLoop S E key u0 r))\<rparr>)"
    unfolding r2_def by (subst so) simp
  then have r2k: "encryptionKeyRef r2 = Some key" using k by simp
  have "files r2 = files (r\<lparr>outbox := outbox (snd (sendLoop S E key u0 r))\<rparr>)"
    unfolding r2_def by (subst so) simp
  then have r2fl: "files r2 = files r" by simp
  consider (a) "aborted u"
    | (b) "\<not> aborted u" "off u < length (file_bytes (up_file u)) \<and> dc_open r2"
    | (c) "\<not> aborted u" "\<not> (off u < length (file_bytes (up_file u)) \<and> dc_open r2)" "dc_open r2"
    | (d) "\<not> aborted u" "\<not> (off u < length (file_bytes (up_file u)) \<and> dc_open r2)" "\<not> dc_open r2"
    by blast
  then have "transfer (sendNext S E r) = Some u
       \<and> encryptionKeyRef (sendNext S E r) = Some key
       \<and> outbox (sendNext S E r) = outbox (snd (sendLoop S E key u0 r))
       \<and> (files (sendNext S E r) = files r
            \<or> files (sendNext S E r) = set_status (up_id u) Failed (files r)
            \<or> (files (sendNext S E r) = set_status (up_id u) Completed (files r)
                \<and> length (file_bytes (up_file u)) \<le> off u))"
  proof cases
    case a
    then have "sendNext S E r = r2\<lparr>files := set_status (up_id u) Failed (files r2)\<rparr>"
      by (simp add: unf afterLoop_def)
    then show ?thesis using r2f r2k r2fl by simp
  next
    case b
    then have "sendNext S E r = r2\<lparr>dataChannelsRef :=
               map_option (\<lambda>dc. dc\<lparr>onbufferedamountlow := True\<rparr>) (dataChannelsRef r2)\<rparr>"
      by (simp add: unf afterLoop_def)
    then show ?thesis using r2f r2k r2fl by simp
  next
    case c
    then have "sendNext S E r = r2\<lparr>blobUrlsRef := blobUrlsRef r2 @ [file_bytes (up_file u)],
              messages := messages r2 @
                [BlobMsg (up_id u) ''local'' (blob_type (file_type (up_file u)))
                   (file_name (up_file u)) (file_bytes (up_file u))],
              files := set_status (up_id u) Completed (files r2),
              abortControllerRef := False\<rparr>"
      by (simp add: unf afterLoop_def)
    moreover from c have "length (file_bytes (up_file u)) \<le> off u" by auto
    ultimately show ?thesis using r2f r2k r2fl by simp
  next
    case d
    then have "sendNext S E r = r2\<lparr>files := set_status (up_id u) Failed (files r2),
              toasts := toasts r2 @ [ToastTransferInterrupted],
              abortControllerRef := False\<rparr>"
      by (simp add: unf afterLoop_def)
    then show ?thesis using r2f r2k r2fl by simp
  qed
  then show ?thesis by (simp add: u_def)
qed

lemma sendNext_sending:
  assumes "sending S E key i f ob r"
  shows "sending S E key i f ob (sendNext S E r)"
proof -
  from assms obtain u0 where t: "transfer r = Some u0"
    by (auto simp: sending_def split: option.splits)
  with assms have k: "encryptionKeyRef r = Some key" and f: "up_file u0 = f" and i: "up_id u0 = i"
    and o: "off u0 = min (draws u0 * CHUNK_SIZE) (length (file_bytes f))"
    and d: "draws u0 = 0 \<or> (draws u0 - 1) * CHUNK_SIZE < length (file_bytes f)"
    and ob: "outbox r = ob @ map (frameAt S E key (file_bytes f)) [0..<draws u0]"
    and fl: "files r \<noteq> []" "ft_id (hd (files r)) = i"
    and c: "ft_status (hd (files r)) = Completed \<longrightarrow> off u0 = length (file_bytes f)"
    by (auto simp: sending_def)
  show ?thesis
  proof (cases "aborted u0")
    case True
    then have "sendNext S E r = r" using t k by (simp add: sendNext_def)
    with assms show ?thesis by simp
  next
    case False
    let ?u = "fst (sendLoop S E key u0 r)"
    let ?r' = "sendNext S E r"
    from sendLoop_frames [of u0 S E key r] o d f
    have l: "up_file ?u = f" "up_id ?u = up_id u0" "draws u0 \<le> draws ?u"
      "off ?u = min (draws ?u * CHUNK_SIZE) (length (file_bytes f))"
      "draws ?u = 0 \<or> (draws ?u - 1) * CHUNK_SIZE < length (file_bytes f)"
      "snd (sendLoop S E key u0 r)
           = r\<lparr>outbox := outbox r @ map (frameAt S E key (file_bytes f)) [draws u0..<draws ?u]\<rparr>"
      by auto
    from sendNext_fields [OF t k False, of S E]
    have n: "transfer ?r' = Some ?u" "encryptionKeyRef ?r' = Some key"
      "outbox ?r' = outbox (snd (sendLoop S E key u0 r))"
      and nf: "files ?r' = files r
            \<or> files ?r' = set_status (up_id ?u) Failed (files r)
            \<or> (files ?r' = set_status (up_id ?u) Completed (files r)
                \<and> length (file_bytes (up_file ?u)) \<le> off ?u)"
      by blast+
    have ob': "outbox ?r' = ob @ map (frameAt S E key (file_bytes f)) [0..<draws ?u]"
      using n(3) l(6) ob upt_split [OF l(3)] by (simp flip: map_append)
    have mono: "off u0 = length (file_bytes f) \<Longrightarrow> off ?u = length (file_bytes f)"
    proof -
      assume "off u0 = length (file_bytes f)"
      with o have "length (file_bytes f) \<le> draws u0 * CHUNK_SIZE" by (simp add: min_def split: if_splits)
      also have "\<dots> \<le> draws ?u * CHUNK_SIZE" using l(3) by simp
      finally show ?thesis using l(4) by simp
    qed
    have fl': "files ?r' \<noteq> [] \<and> ft_id (hd (files ?r')) = i
        \<and> (ft_status (hd (files ?r')) = Completed \<longrightarrow> off ?u = length (file_bytes f))"
      using nf
    proof (elim disjE conjE)
      assume "files ?r' = files r"
      then show ?thesis using fl c mono by simp
    next
      assume "files ?r' = set_status (up_id ?u) Failed (files r)"
      then show ?thesis using hd_set_status [OF fl, of Failed] l(2) i by simp
    next
      assume "files ?r' = set_status (up_id ?u) Completed (files r)"
        and "length (file_bytes (up_file ?u)) \<le> off ?u"
      then show ?thesis using hd_set_status [OF fl, of Completed] l(1,2,4) i by simp
    qed
    show ?thesis
      using n(1,2) l(1,2,4,5) i ob' fl' by (simp add: sending_def)
  qed
qed

lemma dc_step_sending:
  assumes "sending S E key i f ob r"
  shows "sending S E key i f ob (dc_step S E r ev)"
proof (cases ev)
  case BufferedAmountLow
  show ?thesis
  proof (cases "dataChannelsRef r")
    case None
    then show ?thesis using assms BufferedAmountLow by simp
  next
    case (Some dc)
    have "sending S E key i f ob (r\<lparr>dataChannelsRef := Some (dc\<lparr>onbufferedamountlow := False\<rparr>)\<rparr>)"
      using assms by (auto simp: sending_def split: option.splits)
    from sendNext_sending [OF this] show ?thesis
      using assms BufferedAmountLow Some by simp
  qed
next
  case DcClose
  from assms obtain u0 where t: "transfer r = Some u0"
    by (auto simp: sending_def split: option.splits)
  show ?thesis
  proof (cases "dataChannelsRef r")
    case None
    then show ?thesis using assms DcClose by simp
  next
    case (Some dc)
    from assms t have fl: "files r \<noteq> []" by (simp add: sending_def)
    then obtain x xs where xs: "files r = x # xs" by (cases "files r") auto
    show ?thesis
      using assms DcClose Some t xs
      by (auto simp: sending_def Let_def)
  qed
qed

lemma dc_run_sending:
  "sending S E key i f ob r \<Longrightarrow> sending S E key i f ob (dc_run S E r evs)"
proof (induction evs arbitrary: r)
  case Nil
  then show ?case by (simp add: dc_run_def)
next
  case (Cons ev evs)
  from Cons.IH [OF dc_step_sending [OF Cons.prems, of ev]] show ?case
    by (simp add: dc_run_def)
qed

lemma handleFileUpload_sending:
  assumes "encryptionKeyRef r = Some key" and "file_size f \<le> MAX_FILE_SIZE" and "dc_open r"
  shows "sending S E key i f (outbox r @ [Text (FileMeta (metaOf i f))]) (handleFileUpload S E i f r)"
proof -
  define r1 where "r1 = dc_send (Text (FileMeta (metaOf i f))) r"
  define r2 where "r2 = r1\<lparr>abortControllerRef := True,
       files := \<lparr> ft_id = i, ft_name = file_name f, ft_size = file_size f,
                  ft_status = Transferring, ft_mimeType = file_type f \<rparr> # files r1,
       transfer := Some \<lparr> up_id = i, up_file = f, off = 0, aborted = False,
                           reads = 0, draws = 0 \<rparr>,
       dataChannelsRef := map_option (\<lambda>dc. dc\<lparr>onclose_upload := True\<rparr>) (dataChannelsRef r1)\<rparr>"
  have h: "handleFileUpload S E i f r = sendNext S E r2"
    using assms by (simp add: handleFileUpload_def Let_def r2_def r1_def metaOf_def)
  have "sending S E key i f (outbox r @ [Text (FileMeta (metaOf i f))]) r2"
    using assms(1) by (simp add: sending_def r2_def r1_def dc_send_def)
  from sendNext_sending [OF this] show ?thesis by (simp add: h)
qed

lemma toy_subtle_correct: "aead_correct toy_subtle"
  by (simp add: aead_correct_def toy_subtle_def comp_def)

text \<open>A completed upload, after any sequence of low-buffer callbacks and channel closes,
  has handed to the channel the file-meta frame and then, in order, the frames of the
  chunks of the file, each chunk non-empty and all of them covering the file.\<close>

lemma completed_upload_frames:
  assumes "encryptionKeyRef a = Some key" and "dc_open a" and "file_size f \<le> MAX_FILE_SIZE"
    and "ft_status (hd (files (dc_run S E (handleFileUpload S E i f a) evs))) = Completed"
  shows "\<exists>n. length (file_bytes f) \<le> n * CHUNK_SIZE
             \<and> (\<forall>k<n. k * CHUNK_SIZE < length (file_bytes f))
             \<and> outbox (dc_run S E (handleFileUpload S E i f a) evs)
                 = outbox a @ Text (FileMeta (metaOf i f))
                     # map (frameAt S E key (file_bytes f)) [0..<n]"
proof -
  let ?a = "dc_run S E (handleFileUpload S E i f a) evs"
  let ?buf = "file_bytes f"
  let ?m = "metaOf i f"
  from assms(1-3) have "sending S E key i f (outbox a @ [Text (FileMeta ?m)]) ?a"
    by (intro dc_run_sending handleFileUpload_sending) simp_all
  then obtain u where u: "transfer ?a = Some u"
    and o: "off u = min (draws u * CHUNK_SIZE) (length ?buf)"
    and d: "draws u = 0 \<or> (draws u - 1) * CHUNK_SIZE < length ?buf"
    and ob: "outbox ?a = (outbox a @ [Text (FileMeta ?m)]) @ map (frameAt S E key ?buf) [0..<draws u]"
    and c: "ft_status (hd (files ?a)) = Completed \<longrightarrow> off u = length ?buf"
    by (auto simp: sending_def split: option.splits)
  from c assms(4) o have len: "length ?buf \<le> draws u * CHUNK_SIZE"
    by (simp add: min_def split: if_splits)
  have each: "\<forall>k<draws u. k * CHUNK_SIZE < length ?buf"
  proof (intro allI impI)
    fix k assume k: "k < draws u"
    then have "k \<le> draws u - 1" by simp
    then have "k * CHUNK_SIZE \<le> (draws u - 1) * CHUNK_SIZE" by (rule mult_le_mono1)
    moreover from d k have "(draws u - 1) * CHUNK_SIZE < length ?buf" by auto
    ultimately show "k * CHUNK_SIZE < length ?buf" by (rule le_less_trans)
  qed
  from len each ob show ?thesis by auto
qed

text \<open>The upload of the two-chunk file, and its two chunks at the receiver: the blob is
  made of the chunks in the order in which their decryptions settle.\<close>

lemma two_chunks:
  "chunkOf (file_bytes two_chunk_file) 0 = replicate CHUNK_SIZE 1"
  "chunkOf (file_bytes two_chunk_file) 1 = [2]"
  by (simp_all add: chunkOf_def two_chunk_file_def CHUNK_SIZE_def)

lemma two_chunk_upload:
  "handleFileUpload toy_subtle env0 ''f2'' two_chunk_file room0 =
     room0\<lparr>outbox := [Text (FileMeta (metaOf ''f2'' two_chunk_file)),
                        frameAt toy_subtle env0 [7, 8] (file_bytes two_chunk_file) 0,
                        frameAt toy_subtle env0 [7, 8] (file_bytes two_chunk_file) 1],
            abortControllerRef := False,
            files := [\<lparr> ft_id = ''f2'', ft_name = ''b.bin'', ft_size = CHUNK_SIZE + 1,
                       ft_status = Completed, ft_mimeType = ''application/octet-stream'' \<rparr>],
            transfer := Some \<lparr> up_id = ''f2'', up_file = two_chunk_file, off = CHUNK_SIZE + 1,
                                aborted = False, reads = 3, draws = 2 \<rparr>,
            dataChannelsRef := Some \<lparr> readyState = Open, onbufferedamountlow = False,
                                onclose_upload = True \<rparr>,
            blobUrlsRef := [file_bytes two_chunk_file],
            messages := [BlobMsg ''f2'' ''local'' FileType ''b.bin'' (file_bytes two_chunk_file)]\<rparr>"
  by (simp add: handleFileUpload_def sendNext_def afterLoop_def sendLoop_step sendLoop_stop
        sendGuard_def chunkAt_def chunkOf_def frameAt_def
        file_size_def two_chunk_file_def room0_def env0_def MAX_FILE_SIZE_def CHUNK_SIZE_def
        BUFFER_THRESHOLD_def dc_open_def dc_send_def metaOf_def set_status_def blob_type_def
        starts_with_def Let_def)

lemma settle_two:
  assumes "aead_correct S" and "encryptionKeyRef b = Some key" and "dataChannelsRef b = Some dc"
    and "pending b = []"
    and "f0 = Binary (pack (encryptBuffer S r0 key c0))"
    and "f1 = Binary (pack (encryptBuffer S r1 key c1))"
    and "length c0 < meta_size m" and "length c1 < meta_size m"
    and "meta_size m \<le> length c0 + length c1"
  shows "blobUrlsRef (deliver S b [Arrives (Text (FileMeta m)), Arrives f0, Arrives f1,
                                   Settles 1, Settles 0]) = blobUrlsRef b @ [c1 @ c0]"
    and "blobUrlsRef (deliver S b [Arrives (Text (FileMeta m)), Arrives f0, Arrives f1,
                                   Settles 0, Settles 0]) = blobUrlsRef b @ [c0 @ c1]"
    and "files (deliver S b [Arrives (Text (FileMeta m)), Arrives f0, Arrives f1,
                                   Settles 1, Settles 0])
          = set_status (meta_id m) Completed
              (\<lparr> ft_id = meta_id m, ft_name = meta_name m, ft_size = meta_size m,
                  ft_status = Transferring, ft_mimeType = meta_mimeType m \<rparr> # files b)"
  using assms
  by (simp_all add: deliver_def handleFileMetaReceive_def handleFileChunkReceive_def
        handleFileChunkReceive_resume_def unpack_frame Let_def nth_append)


text \<open>
  Claim C2. Its first part holds: for every chunk the sender emits one binary frame, the
  12 bytes of the nonce followed by the ciphertext, and splitting the first 12 bytes off
  and decrypting the rest under the same key gives the chunk back; a completed upload
  has sent the frames of the chunks in the order of the file. Its conclusion fails at
  the receiver. \<^verbatim>\<open>dc.onmessage\<close> does not wait for \<^verbatim>\<open>handleFileChunkReceive\<close>, and the
  handler appends its chunk only after its decryption has settled, so the chunks are
  assembled in the order in which the decryptions settle and not in the order of the
  frames. The file of 64 KiB of ones followed by one byte two is sent in two chunks.
  When the decryption of the second frame (one byte) settles before that of the first
  (64 KiB), the transfer completes at the receiver with a blob that begins with the two:
  the assembled bytes are not the bytes sent. When the decryptions settle in the order of
  the frames, the blob is the file.
\<close>

theorem chunks_assembled_as_decrypted:
  "outbox (handleFileUpload toy_subtle env0 ''f2'' two_chunk_file room0)
     = [Text (FileMeta (metaOf ''f2'' two_chunk_file)),
        frameAt toy_subtle env0 [7, 8] (file_bytes two_chunk_file) 0,
        frameAt toy_subtle env0 [7, 8] (file_bytes two_chunk_file) 1]
   \<and> map ft_status (files (handleFileUpload toy_subtle env0 ''f2'' two_chunk_file room0))
       = [Completed]
   \<and> file_bytes two_chunk_file = replicate CHUNK_SIZE 1 @ [2]
   \<and> blobUrlsRef (deliver toy_subtle room0
         (map Arrives (outbox (handleFileUpload toy_subtle env0 ''f2'' two_chunk_file room0))
            @ [Settles 1, Settles 0]))
       = [2 # replicate CHUNK_SIZE 1]
   \<and> map ft_status (files (deliver toy_subtle room0
         (map Arrives (outbox (handleFileUpload toy_subtle env0 ''f2'' two_chunk_file room0))
            @ [Settles 1, Settles 0])))
       = [Completed]
   \<and> 2 # replicate CHUNK_SIZE 1 \<noteq> file_bytes two_chunk_file
   \<and> blobUrlsRef (deliver toy_subtle room0
         (map Arrives (outbox (handleFileUpload toy_subtle env0 ''f2'' two_chunk_file room0))
            @ [Settles 0, Settles 0]))
       = [file_bytes two_chunk_file]"
proof -
  let ?m = "metaOf ''f2'' two_chunk_file"
  let ?f0 = "frameAt toy_subtle env0 [7, 8] (file_bytes two_chunk_file) 0"
  let ?f1 = "frameAt toy_subtle env0 [7, 8] (file_bytes two_chunk_file) 1"
  have ob: "outbox (handleFileUpload toy_subtle env0 ''f2'' two_chunk_file room0)
      = [Text (FileMeta ?m), ?f0, ?f1]"
    by (simp add: two_chunk_upload)
  have st: "map ft_status (files (handleFileUpload toy_subtle env0 ''f2'' two_chunk_file room0))
      = [Completed]"
    by (simp add: two_chunk_upload)
  have f0: "?f0 = Binary (pack (encryptBuffer toy_subtle (randomAt env0 0) [7, 8]
                                  (replicate CHUNK_SIZE 1)))"
    and f1: "?f1 = Binary (pack (encryptBuffer toy_subtle (randomAt env0 1) [7, 8] [2]))"
    unfolding frameAt_def two_chunks by (rule refl)+
  have k: "encryptionKeyRef room0 = Some [7, 8]"
    and dc: "dataChannelsRef room0 = Some \<lparr> readyState = Open, onbufferedamountlow = False,
                                onclose_upload = False \<rparr>"
    and p: "pending room0 = []" and bl: "blobUrlsRef room0 = []" and fl: "files room0 = []"
    by (simp_all add: room0_def)
  have sz: "length (replicate CHUNK_SIZE (1 :: byte)) < meta_size ?m"
    "length [2 :: byte] < meta_size ?m"
    "meta_size ?m \<le> length (replicate CHUNK_SIZE (1 :: byte)) + length [2 :: byte]"
    by (simp_all add: metaOf_def file_size_def two_chunk_file_def CHUNK_SIZE_def)
  note two = settle_two [OF toy_subtle_correct k dc p f0 f1 sz]
  have ne: "2 # replicate CHUNK_SIZE (1 :: byte) \<noteq> file_bytes two_chunk_file"
  proof
    assume "2 # replicate CHUNK_SIZE (1 :: byte) = file_bytes two_chunk_file"
    then have "hd (2 # replicate CHUNK_SIZE (1 :: byte)) = hd (file_bytes two_chunk_file)"
      by simp
    moreover have "hd (file_bytes two_chunk_file) = 1"
      by (simp add: two_chunk_file_def CHUNK_SIZE_def hd_append)
    ultimately show False by simp
  qed
  show ?thesis
    unfolding ob using two ne st
    by (simp add: bl fl set_status_def metaOf_def two_chunk_file_def)
qed

subsection \<open>Base64 text of bytes\<close>


















subsection \<open>UTF-8 of scalar values\<close>


lemma dec1: "b < 128 \<Longrightarrow> utf8_decoder 0 0 0x80 0xBF (b # rest) = b # utf8_decoder 0 0 0x80 0xBF rest"
  by simp






lemma split64: "x = (x div 64) * 64 + x mod 64 \<and> x mod 64 < (64::nat)"
  by simp













subsection \<open>Encrypting and decrypting a text\<close>


text \<open>A text whose ciphertext has more bytes than the engine takes arguments is not
  encrypted at all: the promise of \<^verbatim>\<open>encryptMessage\<close> is rejected.\<close>

lemma long_text_rejected:
  assumes "maxArgs < length (encrypt S key (getRandomValues12 rnd) (TextEncoder_encode text))"
  shows "encryptMessage S maxArgs rnd key text = Inl RangeError"
  using assms by (simp add: encryptMessage_def fromCharCode_def Let_def)






end
